theory Spec2Isabelle
  imports Main "HOL-Library.Word" "HOL-Library.Signed_Division" "HOL-Library.Sublist"
begin

section \<open>Errors, outcomes and the process environment\<close>

text \<open>
  A Go \<^verbatim>\<open>error\<close> value is either nil or one of the errors below. The constructors
  \<open>TraceErr\<close> and \<open>PermanentError\<close> are the two wrappers the engine uses:
  \<^verbatim>\<open>trace.Wrap\<close> and \<^verbatim>\<open>&backoff.PermanentError{Err: err}\<close>. An error that reaches
  the engine from its callers may be a trace that reports a text of its own (a message
  added by \<^verbatim>\<open>trace.Wrap(err, msg)\<close>, or the debug report): \<open>TraceErrWith t e\<close> is the
  trace around \<open>e\<close> whose \<^verbatim>\<open>Error()\<close> is \<open>t\<close>.
\<close>

datatype error =
    ConnectionRefused string
  | BadParameter string
  | NotFound string
  | OtherError string
  | TraceErr error
  | TraceErrWith string error
  | PermanentError error

text \<open>\<^verbatim>\<open>trace.Wrap(err)\<close> on a non-nil error: an error that already carries a trace is
  returned as it is, any other error is wrapped.\<close>

fun trace_Wrap :: "error \<Rightarrow> error" where
  "trace_Wrap (TraceErr e) = TraceErr e"
| "trace_Wrap (TraceErrWith t e) = TraceErrWith t e"
| "trace_Wrap e = TraceErr e"

text \<open>\<^verbatim>\<open>trace.Unwrap(err)\<close> on a non-nil error: the original error under the traces.\<close>

fun trace_Unwrap :: "error \<Rightarrow> error" where
  "trace_Unwrap (TraceErr e) = trace_Unwrap e"
| "trace_Unwrap (TraceErrWith t e) = trace_Unwrap e"
| "trace_Unwrap e = e"

text \<open>\<^verbatim>\<open>err.Error()\<close>: the message of an error.\<close>

fun Error_text :: "error \<Rightarrow> string" where
  "Error_text (ConnectionRefused m) = m"
| "Error_text (BadParameter m) = m"
| "Error_text (NotFound m) = m"
| "Error_text (OtherError m) = m"
| "Error_text (TraceErr e) = Error_text e"
| "Error_text (TraceErrWith t e) = t"
| "Error_text (PermanentError e) = Error_text e"

text \<open>
  What a Go call does: it returns a value (\<open>Return ()\<close> is a nil error), returns a
  non-nil error, or panics (a nil dereference).
\<close>

datatype 'a outcome = Return 'a | Fail error | Panic

text \<open>\<^verbatim>\<open>return trace.Wrap(err)\<close> applied to what a call gave; nil stays nil.\<close>

fun Wrap_outcome :: "'a outcome \<Rightarrow> 'a outcome" where
  "Wrap_outcome (Fail e) = Fail (trace_Wrap e)"
| "Wrap_outcome x = x"

type_synonym Duration = nat
type_synonym Time = nat

definition Minute :: Duration where
  "Minute = 60 * 1000000000"

datatype Level = DebugLevel | WarnLevel

text \<open>
  The process environment the engine runs in: the wall clock read by \<^verbatim>\<open>time.Now()\<close>
  (nanoseconds), the lines written through the logger, the counter behind
  \<^verbatim>\<open>uuid.New()\<close>, and the pauses the backoff policy hands out (they are randomised in
  the library, so they belong to the environment). The state of the backend lives in the
  extension of the record.
\<close>

record world =
  now :: Time
  logged :: "(Level \<times> string) list"
  uuids :: nat
  pauses :: "nat \<Rightarrow> Duration"

section \<open>The retry wrapper\<close>

text \<open>\<^verbatim>\<open>context.WithTimeout(context.Background(), d)\<close>: a context is its deadline.\<close>

record Context =
  Deadline :: "Time option"

definition Background :: Context where
  "Background = \<lparr>Deadline = None\<rparr>"

definition WithTimeout :: "Context \<Rightarrow> Duration \<Rightarrow> Time \<Rightarrow> Context" where
  "WithTimeout parent d t =
     \<lparr>Deadline = (case Deadline parent of
                     None \<Rightarrow> Some (t + d)
                   | Some p \<Rightarrow> Some (min p (t + d)))\<rparr>"

definition Done :: "Context \<Rightarrow> Time \<Rightarrow> bool" where
  "Done ctx t = (case Deadline ctx of None \<Rightarrow> False | Some d \<Rightarrow> d \<le> t)"

text \<open>The clock when a wait that began at \<open>t\<close> is ended by the context.\<close>

definition Expiry :: "Context \<Rightarrow> Time \<Rightarrow> Time" where
  "Expiry ctx t = (case Deadline ctx of None \<Rightarrow> t | Some d \<Rightarrow> max t d)"

definition maxRetryElapsedTime :: Duration where
  "maxRetryElapsedTime = 5 * Minute"

text \<open>
  Modelled from the spec: \<^verbatim>\<open>utils.IsConnectionRefusedError\<close> is not among the sources.
  Spec 4.4: "connection refused" (or equivalent transient-transport signatures) is the
  retryable class; every other error is not.
\<close>

definition IsConnectionRefusedError :: "error \<Rightarrow> bool" where
  "IsConnectionRefusedError err =
     (case trace_Unwrap err of ConnectionRefused m \<Rightarrow> True | _ \<Rightarrow> False)"

text \<open>
  Modelled from the spec: \<^verbatim>\<open>utils.NewUnlimitedExponentialBackOff\<close> is not among the
  sources. Spec 4.4 only says that the number of attempts is unbounded; the pause before
  retry \<open>i\<close> is read from the environment.
\<close>

definition NewUnlimitedExponentialBackOff :: "'a world_scheme \<Rightarrow> (nat \<Rightarrow> Duration)" where
  "NewUnlimitedExponentialBackOff w = pauses w"

text \<open>
  Modelled from the spec: \<^verbatim>\<open>utils.RetryWithInterval\<close> is not among the sources.
  Spec 4.4: the operation is attempted again and again with a backoff pause between
  attempts, until it succeeds, until it returns a permanent error (the loop stops
  immediately and hands back the error inside), or until the context is done; the pause
  is cut short by the context. The loop may fail to return when the clock stands still,
  so it is a partial function: \<open>None\<close> means that it does not return.
  A closure that assigns a captured variable on success (\<open>GetOperationPlan\<close> below)
  returns that value here.
\<close>

partial_function (option) RetryWithInterval ::
  "Context \<Rightarrow> (nat \<Rightarrow> Duration) \<Rightarrow> nat \<Rightarrow>
   ('a world_scheme \<Rightarrow> 'r outcome \<times> 'a world_scheme) \<Rightarrow>
   'a world_scheme \<Rightarrow> ('r outcome \<times> 'a world_scheme) option"
where
  "RetryWithInterval ctx b i fn w =
     (case fn w of
        (Return v, w1) \<Rightarrow> Some (Return v, w1)
      | (Panic, w1) \<Rightarrow> Some (Panic, w1)
      | (Fail err, w1) \<Rightarrow>
          (case err of
             PermanentError e \<Rightarrow> Some (Fail e, w1)
           | _ \<Rightarrow>
               if Done ctx (now w1 + b i)
               then Some (Fail err, w1\<lparr>now := Expiry ctx (now w1)\<rparr>)
               else RetryWithInterval ctx b (Suc i) fn (w1\<lparr>now := now w1 + b i\<rparr>)))"

text \<open>The closure \<open>retry\<close> hands to the loop (lines 340-349): nil stays nil, a
  connection-refused error is returned wrapped (and so retried), every other error is
  made permanent.\<close>

definition retry_attempt ::
  "('w \<Rightarrow> 'r outcome \<times> 'w) \<Rightarrow> 'w \<Rightarrow> 'r outcome \<times> 'w" where
  "retry_attempt fn w =
     (case fn w of
        (Return v, w1) \<Rightarrow> (Return v, w1)
      | (Panic, w1) \<Rightarrow> (Panic, w1)
      | (Fail err, w1) \<Rightarrow>
          if IsConnectionRefusedError err then (Fail (trace_Wrap err), w1)
          else (Fail (PermanentError err), w1))"

definition retry ::
  "('a world_scheme \<Rightarrow> 'r outcome \<times> 'a world_scheme) \<Rightarrow>
   'a world_scheme \<Rightarrow> ('r outcome \<times> 'a world_scheme) option" where
  "retry fn w =
     (let ctx = WithTimeout Background maxRetryElapsedTime (now w);
          b = NewUnlimitedExponentialBackOff w
      in map_option (\<lambda>(r, w1). (Wrap_outcome r, w1))
           (RetryWithInterval ctx b 0 (retry_attempt fn) w))"

section \<open>The data model\<close>

text \<open>
  The types of the packages \<^verbatim>\<open>storage\<close>, \<^verbatim>\<open>ops\<close> and \<^verbatim>\<open>lib/fsm\<close> are not among the
  sources; the records below carry the fields the engine reads and writes, under the
  names the engine uses (prefixed, since Isabelle's field names are global). A Go
  \<^verbatim>\<open>int\<close> is a 64-bit word.
\<close>

type_synonym GoInt = "64 word"

text \<open>Go's \<^verbatim>\<open>/\<close> on \<^verbatim>\<open>int\<close>: the quotient truncated towards zero, in 64 bits.\<close>

definition Go_quo :: "GoInt \<Rightarrow> GoInt \<Rightarrow> GoInt" where
  "Go_quo a b = word_of_int (sint a sdiv sint b)"

text \<open>Modelled from the spec: \<^verbatim>\<open>utils.Max\<close> is not among the sources; spec 3 writes
  \<open>max(total phases, 1)\<close>.\<close>

definition utils_Max :: "GoInt \<Rightarrow> GoInt \<Rightarrow> GoInt" where
  "utils_Max a b = (if b <s a then a else b)"

datatype PhaseState = Unstarted | InProgress | Completed | Failed

record Server =
  srv_Hostname :: string
  srv_AdvertiseIP :: string

record OperationPhaseData =
  data_Server :: "Server option"

datatype OperationPhase =
  OperationPhase
    (phase_ID: string)
    (phase_Description: string)
    (phase_Step: GoInt)
    (phase_State: PhaseState)
    (phase_Data: "OperationPhaseData option")
    (phase_Requires: "string list")
    (phase_Phases: "OperationPhase list")

record OperationPlan =
  plan_OperationID :: string
  plan_AccountID :: string
  plan_ClusterName :: string
  plan_Phases :: "OperationPhase list"

record SiteOperationKey =
  key_AccountID :: string
  key_SiteDomain :: string
  key_OperationID :: string

record SiteOperation =
  op_ID :: string
  op_AccountID :: string
  op_SiteDomain :: string

text \<open>\<^verbatim>\<open>(*SiteOperation).Key()\<close>.\<close>

definition Key :: "SiteOperation \<Rightarrow> SiteOperationKey" where
  "Key s = \<lparr>key_AccountID = op_AccountID s, key_SiteDomain = op_SiteDomain s,
            key_OperationID = op_ID s\<rparr>"

datatype ProgressState = ProgressStateInProgress | ProgressStateCompleted | ProgressStateFailed

record ProgressEntry =
  pe_SiteDomain :: string
  pe_OperationID :: string
  pe_Completion :: GoInt
  pe_Step :: GoInt
  pe_State :: ProgressState
  pe_Message :: string
  pe_Created :: Time

record RawTrace =
  raw_Message :: string

record PlanChange =
  pc_ID :: nat
  pc_ClusterName :: string
  pc_OperationID :: string
  pc_PhaseID :: string
  pc_NewState :: PhaseState
  pc_Error :: "RawTrace option"
  pc_Created :: Time

datatype OperationState = OperationStateCompleted | OperationStateFailed

record SetOperationStateRequest =
  req_State :: OperationState
  req_Message :: string

text \<open>\<^verbatim>\<open>libfsm.Params\<close>, \<^verbatim>\<open>libfsm.StateChange\<close> and \<^verbatim>\<open>libfsm.ExecutorParams\<close>.\<close>

record Params =
  PhaseID :: string
  Force :: bool

record StateChange =
  sc_Phase :: string
  sc_State :: PhaseState
  sc_Error :: "error option"

record ExecutorParams =
  ep_Plan :: OperationPlan
  ep_Phase :: OperationPhase

definition ExecutorParams_Key :: "ExecutorParams \<Rightarrow> SiteOperationKey" where
  "ExecutorParams_Key p =
     \<lparr>key_AccountID = plan_AccountID (ep_Plan p), key_SiteDomain = plan_ClusterName (ep_Plan p),
      key_OperationID = plan_OperationID (ep_Plan p)\<rparr>"

datatype Remote = Remote nat

datatype Emitter = Emitter nat

text \<open>Modelled from the spec: \<^verbatim>\<open>utils.ToRawTrace\<close> is not among the sources; spec 3 calls
  the field the optional error detail: nil for a nil error, else the error's text.\<close>

definition utils_ToRawTrace :: "error option \<Rightarrow> RawTrace option" where
  "utils_ToRawTrace err = map_option (\<lambda>e. \<lparr>raw_Message = Error_text e\<rparr>) err"

subsection \<open>The plan algorithms\<close>

fun FlattenPhase :: "OperationPhase \<Rightarrow> OperationPhase list" where
  "FlattenPhase (OperationPhase i d s st dt rq subs) =
     OperationPhase i d s st dt rq subs # concat (map FlattenPhase subs)"

fun LeafPhases :: "OperationPhase \<Rightarrow> OperationPhase list" where
  "LeafPhases (OperationPhase i d s st dt rq subs) =
     (if subs = [] then [OperationPhase i d s st dt rq subs]
      else concat (map LeafPhases subs))"

text \<open>
  \<^verbatim>\<open>%q\<close> on a string (\<^verbatim>\<open>strconv.Quote\<close>): the text between double quotes, with a
  backslash before a double quote and before a backslash, the printable ASCII characters
  as they are, the escapes \<^verbatim>\<open>\a \b \f \n \r \t \v\<close>, and \<^verbatim>\<open>\x\<close> with two hexadecimal
  digits for the other control characters. This is Go's rule for every string of ASCII
  characters. A byte from 0x80 on is copied, as Go does with the bytes of a printable
  character in UTF-8; Go's tables of printable characters are not reproduced, so the
  statements below pin the quoted text for ASCII strings only.
\<close>

definition hexdigit :: "nat \<Rightarrow> char" where
  "hexdigit n = ''0123456789abcdef'' ! (n mod 16)"

definition escaped :: "char \<Rightarrow> string" where
  "escaped c =
     (let n = (of_char c :: nat)
      in if n = 0x22 \<or> n = 0x5C then [CHR 0x5C, c]
         else if 0x20 \<le> n \<and> n \<le> 0x7E then [c]
         else if n = 0x07 then [CHR 0x5C, CHR ''a'']
         else if n = 0x08 then [CHR 0x5C, CHR ''b'']
         else if n = 0x0C then [CHR 0x5C, CHR ''f'']
         else if n = 0x0A then [CHR 0x5C, CHR ''n'']
         else if n = 0x0D then [CHR 0x5C, CHR ''r'']
         else if n = 0x09 then [CHR 0x5C, CHR ''t'']
         else if n = 0x0B then [CHR 0x5C, CHR ''v'']
         else if n < 0x20 \<or> n = 0x7F
         then [CHR 0x5C, CHR ''x'', hexdigit (n div 16), hexdigit (n mod 16)]
         else [c])"

definition quoted :: "string \<Rightarrow> string" where
  "quoted s = [CHR 0x22] @ concat (map escaped s) @ [CHR 0x22]"

text \<open>The strings of ASCII characters.\<close>

definition IsASCII :: "string \<Rightarrow> bool" where
  "IsASCII s = list_all (\<lambda>c. (of_char c :: nat) < 0x80) s"

text \<open>\<^verbatim>\<open>trace.BadParameter\<close> and \<^verbatim>\<open>trace.NotFound\<close> return their error with a trace.\<close>

definition trace_BadParameter :: "string \<Rightarrow> error" where
  "trace_BadParameter m = TraceErr (BadParameter m)"

definition trace_NotFound :: "string \<Rightarrow> error" where
  "trace_NotFound m = TraceErr (NotFound m)"

text \<open>
  Modelled from the spec: \<^verbatim>\<open>libfsm.FindPhase\<close> is not among the sources. Spec 4.1: exact
  lookup by ID, including within nested sub-phases; fails with NotFound if absent.
\<close>

definition FindPhase :: "OperationPlan \<Rightarrow> string \<Rightarrow> OperationPhase outcome" where
  "FindPhase plan phaseID =
     (case find (\<lambda>p. phase_ID p = phaseID) (concat (map FlattenPhase (plan_Phases plan))) of
        Some p \<Rightarrow> Return p
      | None \<Rightarrow> Fail (trace_NotFound (''phase '' @ quoted phaseID @ '' not found'')))"

text \<open>
  Modelled from the spec: \<^verbatim>\<open>libfsm.IsCompleted\<close> is not among the sources. Spec 4.1: true
  iff every leaf phase is Completed.
\<close>

definition IsCompleted :: "OperationPlan \<Rightarrow> bool" where
  "IsCompleted plan =
     list_all (\<lambda>p. phase_State p = Completed) (concat (map LeafPhases (plan_Phases plan)))"

section \<open>The interfaces the engine consumes\<close>

text \<open>
  \<^verbatim>\<open>ops.Operator\<close>, cut down to the four methods of the interface \<open>operator\<close> (lines
  329-334), and \<^verbatim>\<open>libfsm.RemoteRunner\<close>. A method is a state transformer on the world;
  an interface value may be nil, which is \<open>None\<close> where the engine holds one.
\<close>

record 'a Operator =
  CreateProgressEntry ::
    "SiteOperationKey \<Rightarrow> ProgressEntry \<Rightarrow> 'a world_scheme \<Rightarrow> unit outcome \<times> 'a world_scheme"
  CreateOperationPlanChange ::
    "SiteOperationKey \<Rightarrow> PlanChange \<Rightarrow> 'a world_scheme \<Rightarrow> unit outcome \<times> 'a world_scheme"
  GetOperationPlan ::
    "SiteOperationKey \<Rightarrow> 'a world_scheme \<Rightarrow> OperationPlan outcome \<times> 'a world_scheme"
  SetOperationState ::
    "SiteOperationKey \<Rightarrow> SetOperationStateRequest \<Rightarrow> 'a world_scheme \<Rightarrow>
     unit outcome \<times> 'a world_scheme"

record 'a RemoteRunner =
  Run :: "Context \<Rightarrow> Server \<Rightarrow> string list \<Rightarrow> 'a world_scheme \<Rightarrow> unit outcome \<times> 'a world_scheme"

text \<open>\<^verbatim>\<open>libfsm.Logger\<close>: the fields of the log entry, the operation key, the operator
  and the server.\<close>

record 'a Logger =
  lg_Fields :: "(string \<times> string) list"
  lg_Key :: SiteOperationKey
  lg_Operator :: "'a Operator option"
  lg_Server :: "Server option"

text \<open>Writing a line through a logger; calling a method of a nil logger panics. A
  formatted line (\<^verbatim>\<open>Debugf\<close>) is kept as its format: the arguments are not rendered.\<close>

definition log_line ::
  "'a Logger option \<Rightarrow> Level \<Rightarrow> string \<Rightarrow> 'a world_scheme \<Rightarrow> unit outcome \<times> 'a world_scheme" where
  "log_line logger lvl msg w =
     (case logger of
        None \<Rightarrow> (Panic, w)
      | Some l \<Rightarrow> (Return (), w\<lparr>logged := logged w @ [(lvl, msg)]\<rparr>))"

text \<open>\<^verbatim>\<open>uuid.New()\<close>.\<close>

definition uuid_New :: "'a world_scheme \<Rightarrow> nat \<times> 'a world_scheme" where
  "uuid_New w = (uuids w, w\<lparr>uuids := Suc (uuids w)\<rparr>)"

section \<open>The engine\<close>

record 'a Config =
  cfg_Operation :: "SiteOperation option"
  cfg_Operator :: "'a Operator option"
  cfg_FieldLogger :: "'a Logger option"
  cfg_Runner :: "'a RemoteRunner option"
  cfg_Silent :: bool
  cfg_Emitter :: "Emitter option"

record 'a retryingOperator =
  Operator :: "'a Operator option"

text \<open>What \<^verbatim>\<open>libphase.NewSync\<close> builds for a phase.\<close>

datatype 'a PhaseExecutor =
  Sync ExecutorParams "Emitter option" SiteOperation "'a Logger"

type_synonym 'a FSMSpecFunc = "ExecutorParams \<Rightarrow> Remote \<Rightarrow> 'a PhaseExecutor outcome"

record 'a engine =
  eng_Config :: "'a Config"
  eng_spec :: "'a FSMSpecFunc"
  eng_operator :: "'a retryingOperator"

subsection \<open>The retrying operator (lines 295-322)\<close>

definition retrying_CreateProgressEntry ::
  "'a retryingOperator \<Rightarrow> SiteOperationKey \<Rightarrow> ProgressEntry \<Rightarrow> 'a world_scheme \<Rightarrow>
   (unit outcome \<times> 'a world_scheme) option" where
  "retrying_CreateProgressEntry r key entry w =
     map_option (\<lambda>(res, w1). (Wrap_outcome res, w1))
       (retry (\<lambda>w0. case Operator r of
                       None \<Rightarrow> (Panic, w0)
                     | Some operator \<Rightarrow> CreateProgressEntry operator key entry w0) w)"

definition retrying_CreateOperationPlanChange ::
  "'a retryingOperator \<Rightarrow> SiteOperationKey \<Rightarrow> PlanChange \<Rightarrow> 'a world_scheme \<Rightarrow>
   (unit outcome \<times> 'a world_scheme) option" where
  "retrying_CreateOperationPlanChange r key change w =
     map_option (\<lambda>(res, w1). (Wrap_outcome res, w1))
       (retry (\<lambda>w0. case Operator r of
                       None \<Rightarrow> (Panic, w0)
                     | Some operator \<Rightarrow> CreateOperationPlanChange operator key change w0) w)"

definition retrying_GetOperationPlan ::
  "'a retryingOperator \<Rightarrow> SiteOperationKey \<Rightarrow> 'a world_scheme \<Rightarrow>
   (OperationPlan outcome \<times> 'a world_scheme) option" where
  "retrying_GetOperationPlan r key w =
     map_option (\<lambda>(res, w1). (Wrap_outcome res, w1))
       (retry (\<lambda>w0. case Operator r of
                       None \<Rightarrow> (Panic, w0)
                     | Some operator \<Rightarrow>
                         (case GetOperationPlan operator key w0 of
                            (res, w1) \<Rightarrow> (Wrap_outcome res, w1))) w)"

definition retrying_SetOperationState ::
  "'a retryingOperator \<Rightarrow> SiteOperationKey \<Rightarrow> SetOperationStateRequest \<Rightarrow> 'a world_scheme \<Rightarrow>
   (unit outcome \<times> 'a world_scheme) option" where
  "retrying_SetOperationState r key req w =
     map_option (\<lambda>(res, w1). (Wrap_outcome res, w1))
       (retry (\<lambda>w0. case Operator r of
                       None \<Rightarrow> (Panic, w0)
                     | Some operator \<Rightarrow> SetOperationState operator key req w0) w)"

text \<open>
  Modelled from the spec: \<^verbatim>\<open>ops.CompleteOperation\<close> and \<^verbatim>\<open>ops.FailOperation\<close> are not among
  the sources. Spec 4.2 and 6: the first marks the whole operation Completed, the second
  marks it Failed with the given message; both go through the operator they are handed.
\<close>

definition CompleteOperation ::
  "SiteOperationKey \<Rightarrow> 'a retryingOperator \<Rightarrow> 'a world_scheme \<Rightarrow>
   (unit outcome \<times> 'a world_scheme) option" where
  "CompleteOperation key operator w =
     retrying_SetOperationState operator key
       \<lparr>req_State = OperationStateCompleted, req_Message = []\<rparr> w"

definition FailOperation ::
  "SiteOperationKey \<Rightarrow> 'a retryingOperator \<Rightarrow> string \<Rightarrow> 'a world_scheme \<Rightarrow>
   (unit outcome \<times> 'a world_scheme) option" where
  "FailOperation key operator message w =
     retrying_SetOperationState operator key
       \<lparr>req_State = OperationStateFailed, req_Message = message\<rparr> w"

subsection \<open>The methods of the engine (lines 163-259)\<close>

definition GetPlan ::
  "'a engine \<Rightarrow> 'a world_scheme \<Rightarrow> (OperationPlan outcome \<times> 'a world_scheme) option" where
  "GetPlan r w =
     (case cfg_Operation (eng_Config r) of
        None \<Rightarrow> Some (Panic, w)
      | Some operation \<Rightarrow>
          map_option (\<lambda>(res, w1). (Wrap_outcome res, w1))
            (retrying_GetOperationPlan (eng_operator r) (Key operation) w))"

text \<open>The progress entry built at lines 176-184, for the key, the plan and the phase at
  hand and the clock's reading.\<close>

definition progressEntry ::
  "SiteOperationKey \<Rightarrow> OperationPlan \<Rightarrow> OperationPhase \<Rightarrow> Time \<Rightarrow> ProgressEntry" where
  "progressEntry key plan phase created =
     \<lparr>pe_SiteDomain = key_SiteDomain key,
      pe_OperationID = key_OperationID key,
      pe_Completion =
        Go_quo 100 (utils_Max (word_of_nat (length (plan_Phases plan))) 1) * phase_Step phase,
      pe_Step = phase_Step phase,
      pe_State = ProgressStateInProgress,
      pe_Message = phase_Description phase,
      pe_Created = created\<rparr>"

definition UpdateProgress ::
  "'a engine \<Rightarrow> Context \<Rightarrow> Params \<Rightarrow> 'a world_scheme \<Rightarrow> (unit outcome \<times> 'a world_scheme) option"
where
  "UpdateProgress r ctx params w =
     (case GetPlan r w of
        None \<Rightarrow> None
      | Some (Panic, w1) \<Rightarrow> Some (Panic, w1)
      | Some (Fail err, w1) \<Rightarrow> Some (Fail (trace_Wrap err), w1)
      | Some (Return plan, w1) \<Rightarrow>
          (case FindPhase plan (PhaseID params) of
             Panic \<Rightarrow> Some (Panic, w1)
           | Fail err \<Rightarrow> Some (Fail (trace_Wrap err), w1)
           | Return phase \<Rightarrow>
               (case cfg_Operation (eng_Config r) of
                  None \<Rightarrow> Some (Panic, w1)
                | Some operation \<Rightarrow>
                    (let key = Key operation;
                         entry = progressEntry key plan phase (now w1)
                     in case retrying_CreateProgressEntry (eng_operator r) key entry w1 of
                          None \<Rightarrow> None
                        | Some (Panic, w2) \<Rightarrow> Some (Panic, w2)
                        | Some (Fail err, w2) \<Rightarrow>
                            (case log_line (cfg_FieldLogger (eng_Config r)) WarnLevel
                                    ''Failed to create progress entry.'' w2 of
                               (Return u, w3) \<Rightarrow> Some (Return (), w3)
                             | (bad, w3) \<Rightarrow> Some (bad, w3))
                        | Some (Return u, w2) \<Rightarrow> Some (Return (), w2)))))"

definition Complete ::
  "'a engine \<Rightarrow> error option \<Rightarrow> 'a world_scheme \<Rightarrow> (unit outcome \<times> 'a world_scheme) option" where
  "Complete r fsmErr w =
     (case GetPlan r w of
        None \<Rightarrow> None
      | Some (Panic, w1) \<Rightarrow> Some (Panic, w1)
      | Some (Fail err, w1) \<Rightarrow> Some (Fail (trace_Wrap err), w1)
      | Some (Return plan, w1) \<Rightarrow>
          (case cfg_Operation (eng_Config r) of
             None \<Rightarrow> Some (Panic, w1)
           | Some operation \<Rightarrow>
               (case (if IsCompleted plan
                      then CompleteOperation (Key operation) (eng_operator r) w1
                      else (case fsmErr of
                              None \<Rightarrow> Some (Panic, w1)
                            | Some e \<Rightarrow>
                                FailOperation (Key operation) (eng_operator r)
                                  (Error_text (trace_Unwrap e)) w1)) of
                  None \<Rightarrow> None
                | Some (Panic, w2) \<Rightarrow> Some (Panic, w2)
                | Some (Fail err, w2) \<Rightarrow> Some (Fail (trace_Wrap err), w2)
                | Some (Return u, w2) \<Rightarrow>
                    Some (log_line (cfg_FieldLogger (eng_Config r)) DebugLevel
                            ''Marked operation complete.'' w2))))"

text \<open>The plan change built at lines 219-227.\<close>

definition planChange :: "SiteOperation \<Rightarrow> StateChange \<Rightarrow> nat \<Rightarrow> Time \<Rightarrow> PlanChange" where
  "planChange operation change uuid created =
     \<lparr>pc_ID = uuid,
      pc_ClusterName = op_SiteDomain operation,
      pc_OperationID = op_ID operation,
      pc_PhaseID = sc_Phase change,
      pc_NewState = sc_State change,
      pc_Error = utils_ToRawTrace (sc_Error change),
      pc_Created = created\<rparr>"

definition ChangePhaseState ::
  "'a engine \<Rightarrow> Context \<Rightarrow> StateChange \<Rightarrow> 'a world_scheme \<Rightarrow>
   (unit outcome \<times> 'a world_scheme) option" where
  "ChangePhaseState r ctx change w =
     (case cfg_Operation (eng_Config r) of
        None \<Rightarrow> Some (Panic, w)
      | Some operation \<Rightarrow>
          (case uuid_New w of
             (uuid, w0) \<Rightarrow>
               (case retrying_CreateOperationPlanChange (eng_operator r) (Key operation)
                       (planChange operation change uuid (now w0)) w0 of
                  None \<Rightarrow> None
                | Some (Panic, w1) \<Rightarrow> Some (Panic, w1)
                | Some (Fail err, w1) \<Rightarrow> Some (Fail (trace_Wrap err), w1)
                | Some (Return u, w1) \<Rightarrow>
                    Some (log_line (cfg_FieldLogger (eng_Config r)) DebugLevel
                            ''Applied %v.'' w1))))"

definition GetExecutor ::
  "'a engine \<Rightarrow> ExecutorParams \<Rightarrow> Remote \<Rightarrow> 'a PhaseExecutor outcome" where
  "GetExecutor r params remote = eng_spec r params remote"

definition RunCommand ::
  "'a engine \<Rightarrow> Context \<Rightarrow> 'a RemoteRunner option \<Rightarrow> Server \<Rightarrow> Params \<Rightarrow> 'a world_scheme \<Rightarrow>
   unit outcome \<times> 'a world_scheme" where
  "RunCommand r ctx runner server params w =
     (let args = [''system'', ''envars'', ''--phase'', PhaseID params];
          args = (if Force params then args @ [''--force''] else args)
      in case runner of
           None \<Rightarrow> (Panic, w)
         | Some rr \<Rightarrow> Run rr ctx server args w)"

subsection \<open>The executor table (lines 270-293)\<close>

text \<open>
  Modelled from the spec: the constants \<^verbatim>\<open>libphase.Masters\<close>, \<^verbatim>\<open>libphase.Nodes\<close> and
  \<^verbatim>\<open>constants.FieldPhase\<close> and the constructor \<^verbatim>\<open>libphase.NewSync\<close> are not among the
  sources. Spec 3 writes phase identifiers as paths such as \<^verbatim>\<open>/masters/node-1\<close>; the
  constructor hands back the sync executor of the phase; the log field is named after
  the phase.
\<close>

definition libphase_Masters :: string where
  "libphase_Masters = ''/masters''"

definition libphase_Nodes :: string where
  "libphase_Nodes = ''/nodes''"

definition libphase_NewSync ::
  "ExecutorParams \<Rightarrow> Emitter option \<Rightarrow> SiteOperation \<Rightarrow> 'a Logger \<Rightarrow> 'a PhaseExecutor outcome" where
  "libphase_NewSync params emitter operation logger = Return (Sync params emitter operation logger)"

text \<open>\<^verbatim>\<open>strings.HasPrefix(s, p)\<close>.\<close>

definition HasPrefix :: "string \<Rightarrow> string \<Rightarrow> bool" where
  "HasPrefix s p = prefix p s"

definition configToExecutor :: "'a Config \<Rightarrow> 'a FSMSpecFunc" where
  "configToExecutor config =
     (\<lambda>params remote.
        let logger = \<lparr>lg_Fields = [(''phase'', phase_ID (ep_Phase params))],
                      lg_Key = ExecutorParams_Key params,
                      lg_Operator = cfg_Operator config,
                      lg_Server = None\<rparr>;
            logger = (case phase_Data (ep_Phase params) of
                        None \<Rightarrow> logger
                      | Some d \<Rightarrow> logger\<lparr>lg_Server := data_Server d\<rparr>)
        in if HasPrefix (phase_ID (ep_Phase params)) libphase_Masters
              \<or> HasPrefix (phase_ID (ep_Phase params)) libphase_Nodes
           then (case cfg_Operation config of
                   None \<Rightarrow> Panic
                 | Some operation \<Rightarrow> libphase_NewSync params (cfg_Emitter config) operation logger)
           else Fail (trace_BadParameter (''unknown phase '' @ quoted (phase_ID (ep_Phase params)))))"

subsection \<open>Construction (lines 102-145)\<close>

definition checkAndSetDefaults :: "'a Config \<Rightarrow> unit outcome \<times> 'a Config" where
  "checkAndSetDefaults r =
     (case cfg_Operation r of
        None \<Rightarrow> (Fail (trace_BadParameter ''operation is required''), r)
      | Some operation \<Rightarrow>
          if cfg_Operator r = None
          then (Fail (trace_BadParameter ''operator service is required''), r)
          else if cfg_Runner r = None
          then (Fail (trace_BadParameter ''remote command runner is required''), r)
          else if cfg_FieldLogger r = None
          then (Return (),
                r\<lparr>cfg_FieldLogger :=
                    Some \<lparr>lg_Fields = [(''trace.component'', ''environ'')],
                          lg_Key = Key operation,
                          lg_Operator = cfg_Operator r,
                          lg_Server = None\<rparr>\<rparr>)
          else (Return (), r))"

text \<open>
  Modelled from the spec: \<^verbatim>\<open>libfsm.New\<close>, \<^verbatim>\<open>libfsm.Config\<close> and \<^verbatim>\<open>(*FSM).SetPreExec\<close> are
  not among the sources. Spec 2: the state machine wraps the engine and a runner; the
  hook runs before a phase is executed.
\<close>

record 'a libfsm_Config =
  fsm_Engine :: "'a engine"
  fsm_Runner :: "'a RemoteRunner option"

record 'a FSM = "'a libfsm_Config" +
  fsm_preExec ::
    "(Context \<Rightarrow> Params \<Rightarrow> 'a world_scheme \<Rightarrow> (unit outcome \<times> 'a world_scheme) option) option"

definition libfsm_New :: "'a libfsm_Config \<Rightarrow> 'a FSM outcome" where
  "libfsm_New config =
     Return \<lparr>fsm_Engine = fsm_Engine config, fsm_Runner = fsm_Runner config, fsm_preExec = None\<rparr>"

definition SetPreExec ::
  "'a FSM \<Rightarrow> (Context \<Rightarrow> Params \<Rightarrow> 'a world_scheme \<Rightarrow> (unit outcome \<times> 'a world_scheme) option) \<Rightarrow>
   'a FSM" where
  "SetPreExec machine hook = machine\<lparr>fsm_preExec := Some hook\<rparr>"

definition New :: "'a Config \<Rightarrow> 'a FSM outcome" where
  "New config =
     (case checkAndSetDefaults config of
        (Fail err, config1) \<Rightarrow> Fail (trace_Wrap err)
      | (Panic, config1) \<Rightarrow> Panic
      | (Return u, config1) \<Rightarrow>
          (let engine = \<lparr>eng_Config = config1,
                         eng_spec = configToExecutor config1,
                         eng_operator = \<lparr>Operator = cfg_Operator config1\<rparr>\<rparr>
           in case libfsm_New \<lparr>fsm_Engine = engine, fsm_Runner = cfg_Runner config1\<rparr> of
                Fail err \<Rightarrow> Fail (trace_Wrap err)
              | Panic \<Rightarrow> Panic
              | Return machine \<Rightarrow> Return (SetPreExec machine (UpdateProgress engine))))"

section \<open>A reference state store and a call counter\<close>

text \<open>
  The spec's test of the retry wrapper counts how often the wrapped function is called.
  \<open>counting fn\<close> is \<open>fn\<close> with that counter: after each call the counter is one more
  than before the call.
\<close>

record counted = world +
  calls :: nat

definition counting ::
  "('a counted_scheme \<Rightarrow> 'r outcome \<times> 'a counted_scheme) \<Rightarrow>
   'a counted_scheme \<Rightarrow> 'r outcome \<times> 'a counted_scheme" where
  "counting fn w = (case fn w of (res, w1) \<Rightarrow> (res, w1\<lparr>calls := Suc (calls w)\<rparr>))"

text \<open>
  Modelled from the spec: no implementation of the state store interface is among the
  sources. Spec 3, 4.2 and 6: the store keeps the persisted plan, the append-only log of
  plan changes, the progress entries and the operation state; creating a plan change
  appends the record and applies the transition to the plan. Every request first passes
  the transport, which may refuse it: \<open>st_transport\<close> lists what happens to the coming
  requests (\<open>Some e\<close>: the request fails with \<open>e\<close> and does not reach the store).
\<close>

record store = counted +
  st_plan :: "OperationPlan option"
  st_changelog :: "PlanChange list"
  st_progress :: "ProgressEntry list"
  st_state :: "SetOperationStateRequest option"
  st_transport :: "error option list"

definition request ::
  "('a store_scheme \<Rightarrow> 'r outcome \<times> 'a store_scheme) \<Rightarrow>
   'a store_scheme \<Rightarrow> 'r outcome \<times> 'a store_scheme" where
  "request handler w =
     (let w0 = w\<lparr>calls := Suc (calls w)\<rparr>
      in case st_transport w0 of
           [] \<Rightarrow> handler w0
         | None # rest \<Rightarrow> handler (w0\<lparr>st_transport := rest\<rparr>)
         | Some e # rest \<Rightarrow> (Fail e, w0\<lparr>st_transport := rest\<rparr>))"

fun SetPhaseState :: "string \<Rightarrow> PhaseState \<Rightarrow> OperationPhase \<Rightarrow> OperationPhase" where
  "SetPhaseState phaseID state (OperationPhase i d s st dt rq subs) =
     OperationPhase i d s (if i = phaseID then state else st) dt rq
       (map (SetPhaseState phaseID state) subs)"

definition ApplyChange :: "PlanChange \<Rightarrow> OperationPlan \<Rightarrow> OperationPlan" where
  "ApplyChange change plan =
     plan\<lparr>plan_Phases := map (SetPhaseState (pc_PhaseID change) (pc_NewState change))
                            (plan_Phases plan)\<rparr>"

definition store_Operator :: "('a store_ext) counted_ext Operator" where
  "store_Operator =
     \<lparr>CreateProgressEntry = (\<lambda>key entry.
        request (\<lambda>w. (Return (), w\<lparr>st_progress := st_progress w @ [entry]\<rparr>))),
      CreateOperationPlanChange = (\<lambda>key change.
        request (\<lambda>w. (Return (), w\<lparr>st_changelog := st_changelog w @ [change],
                                     st_plan := map_option (ApplyChange change) (st_plan w)\<rparr>))),
      GetOperationPlan = (\<lambda>key.
        request (\<lambda>w. case st_plan w of
                        None \<Rightarrow> (Fail (trace_NotFound ''no operation plan''), w)
                      | Some plan \<Rightarrow> (Return plan, w))),
      SetOperationState = (\<lambda>key req.
        request (\<lambda>w. (Return (), w\<lparr>st_state := Some req\<rparr>)))\<rparr>"

subsection \<open>Sample values\<close>

text \<open>Concrete values on which the theorems below are run.\<close>

definition refused :: error where
  "refused = ConnectionRefused ''dial tcp 10.0.10.100:3009: connect: connection refused''"

definition sample_key :: SiteOperationKey where
  "sample_key = \<lparr>key_AccountID = ''system'', key_SiteDomain = ''example.com'',
                  key_OperationID = ''op-1''\<rparr>"

definition sample_request :: SetOperationStateRequest where
  "sample_request = \<lparr>req_State = OperationStateCompleted, req_Message = []\<rparr>"

definition sample_store :: "error option list \<Rightarrow> store" where
  "sample_store transport =
     \<lparr>now = 0, logged = [], uuids = 0, pauses = (\<lambda>i. 500000000 * 2 ^ i), calls = 0,
      st_plan = None, st_changelog = [], st_progress = [], st_state = None,
      st_transport = transport\<rparr>"

definition sample_operation :: SiteOperation where
  "sample_operation = \<lparr>op_ID = ''op-1'', op_AccountID = ''system'', op_SiteDomain = ''example.com''\<rparr>"

definition sample_server :: Server where
  "sample_server = \<lparr>srv_Hostname = ''node-1'', srv_AdvertiseIP = ''10.0.10.101''\<rparr>"

text \<open>A runner that notes the command line it is given and succeeds.\<close>

definition sample_runner :: "unit store_ext counted_ext RemoteRunner" where
  "sample_runner =
     \<lparr>Run = (\<lambda>ctx server args w. (Return (), w\<lparr>logged := logged w @ map (Pair DebugLevel) args\<rparr>))\<rparr>"

definition sample_config :: "unit store_ext counted_ext Config" where
  "sample_config =
     \<lparr>cfg_Operation = Some sample_operation, cfg_Operator = Some store_Operator,
      cfg_FieldLogger = None, cfg_Runner = Some sample_runner, cfg_Silent = False,
      cfg_Emitter = None\<rparr>"

definition sample_phase :: "string \<Rightarrow> GoInt \<Rightarrow> PhaseState \<Rightarrow> OperationPhase" where
  "sample_phase i step st = OperationPhase i (''Update '' @ i) step st None [] []"

definition sample_plan :: "PhaseState \<Rightarrow> OperationPlan" where
  "sample_plan st =
     \<lparr>plan_OperationID = ''op-1'', plan_AccountID = ''system'', plan_ClusterName = ''example.com'',
      plan_Phases = [sample_phase ''/masters/node-1'' 1 Completed,
                     sample_phase ''/masters/node-2'' 2 st,
                     sample_phase ''/nodes/node-3'' 3 st,
                     sample_phase ''/nodes/node-4'' 4 st]\<rparr>"

definition sample_engine :: "unit store_ext counted_ext engine" where
  "sample_engine =
     (let config1 = sample_config\<lparr>cfg_FieldLogger :=
            Some \<lparr>lg_Fields = [(''trace.component'', ''environ'')], lg_Key = Key sample_operation,
                  lg_Operator = Some store_Operator, lg_Server = None\<rparr>\<rparr>
      in \<lparr>eng_Config = config1, eng_spec = configToExecutor config1,
          eng_operator = \<lparr>Operator = Some store_Operator\<rparr>\<rparr>)"

definition sample_machine :: "unit store_ext counted_ext FSM" where
  "sample_machine =
     \<lparr>fsm_Engine = sample_engine, fsm_Runner = Some sample_runner,
      fsm_preExec = Some (UpdateProgress sample_engine)\<rparr>"

definition is_Sync :: "unit store_ext counted_ext PhaseExecutor outcome \<Rightarrow> bool" where
  "is_Sync x = (case x of Return (Sync p e operation l) \<Rightarrow> True | _ \<Rightarrow> False)"

definition planned_store :: "PhaseState \<Rightarrow> error option list \<Rightarrow> store" where
  "planned_store st transport = (sample_store transport)\<lparr>st_plan := Some (sample_plan st)\<rparr>"

definition sample_change :: StateChange where
  "sample_change = \<lparr>sc_Phase = ''/masters/node-2'', sc_State = InProgress, sc_Error = None\<rparr>"

section \<open>The retry loop, step by step\<close>

lemma trace_Wrap_not_permanent: "trace_Wrap e \<noteq> PermanentError x"
  by (cases e) simp_all

lemma trace_Unwrap_Wrap: "trace_Unwrap (trace_Wrap e) = trace_Unwrap e"
  by (cases e) simp_all

lemma loop_Return:
  "fn w = (Return v, w1) \<Longrightarrow> RetryWithInterval ctx b i fn w = Some (Return v, w1)"
  by (subst RetryWithInterval.simps) simp

lemma loop_Panic:
  "fn w = (Panic, w1) \<Longrightarrow> RetryWithInterval ctx b i fn w = Some (Panic, w1)"
  by (subst RetryWithInterval.simps) simp

lemma loop_Permanent:
  "fn w = (Fail (PermanentError e), w1) \<Longrightarrow> RetryWithInterval ctx b i fn w = Some (Fail e, w1)"
  by (subst RetryWithInterval.simps) simp

lemma loop_again:
  "fn w = (Fail err, w1) \<Longrightarrow> \<forall>e. err \<noteq> PermanentError e \<Longrightarrow> \<not> Done ctx (now w1 + b i) \<Longrightarrow>
   RetryWithInterval ctx b i fn w =
     RetryWithInterval ctx b (Suc i) fn (w1\<lparr>now := now w1 + b i\<rparr>)"
  by (subst RetryWithInterval.simps) (simp split: error.splits)

lemma loop_expired:
  "fn w = (Fail err, w1) \<Longrightarrow> \<forall>e. err \<noteq> PermanentError e \<Longrightarrow> Done ctx (now w1 + b i) \<Longrightarrow>
   RetryWithInterval ctx b i fn w = Some (Fail err, w1\<lparr>now := Expiry ctx (now w1)\<rparr>)"
  by (subst RetryWithInterval.simps) (simp split: error.splits)

lemma attempt_permanent:
  "fn w = (Fail e, w1) \<Longrightarrow> \<not> IsConnectionRefusedError e \<Longrightarrow>
   RetryWithInterval ctx b i (retry_attempt fn) w = Some (Fail e, w1)"
  by (rule loop_Permanent) (simp add: retry_attempt_def)

lemma attempt_transient:
  "fn w = (Fail e, w1) \<Longrightarrow> IsConnectionRefusedError e \<Longrightarrow> \<not> Done ctx (now w1 + b i) \<Longrightarrow>
   RetryWithInterval ctx b i (retry_attempt fn) w =
     RetryWithInterval ctx b (Suc i) (retry_attempt fn) (w1\<lparr>now := now w1 + b i\<rparr>)"
  by (rule loop_again) (auto simp: retry_attempt_def trace_Wrap_not_permanent)

lemma attempt_Return:
  "fn w = (Return v, w1) \<Longrightarrow>
   RetryWithInterval ctx b i (retry_attempt fn) w = Some (Return v, w1)"
  by (rule loop_Return) (simp add: retry_attempt_def)

lemma Done_retry_ctx:
  "Done (WithTimeout Background maxRetryElapsedTime t0) t \<longleftrightarrow> t0 + maxRetryElapsedTime \<le> t"
  by (simp add: Done_def WithTimeout_def Background_def)

lemma retry_unfold:
  "retry fn w = map_option (\<lambda>(r, w1). (Wrap_outcome r, w1))
     (RetryWithInterval (WithTimeout Background maxRetryElapsedTime (now w)) (pauses w) 0
        (retry_attempt fn) w)"
  by (simp add: retry_def NewUnlimitedExponentialBackOff_def)

lemma counting_calls: "counting fn w = (res, w1) \<Longrightarrow> calls w1 = Suc (calls w)"
  by (auto simp: counting_def split: prod.splits)

lemma sample_flaky_1:
  "counting (SetOperationState store_Operator sample_key sample_request)
     (sample_store [Some refused, Some refused])
   = (Fail refused, (sample_store [Some refused])\<lparr>calls := 1\<rparr>)"
  by (simp add: counting_def store_Operator_def request_def sample_store_def)

lemma sample_flaky_2:
  "counting (SetOperationState store_Operator sample_key sample_request)
     ((sample_store [Some refused])\<lparr>calls := 1, now := 500000000\<rparr>)
   = (Fail refused, (sample_store [])\<lparr>calls := 2, now := 500000000\<rparr>)"
  by (simp add: counting_def store_Operator_def request_def sample_store_def)

lemma sample_flaky_3:
  "counting (SetOperationState store_Operator sample_key sample_request)
     ((sample_store [])\<lparr>calls := 2, now := 1500000000\<rparr>)
   = (Return (), (sample_store [])\<lparr>calls := 3, now := 1500000000, st_state := Some sample_request\<rparr>)"
  by (simp add: counting_def store_Operator_def request_def sample_store_def)

lemma sample_broken:
  "counting (SetOperationState store_Operator sample_key sample_request)
     (sample_store [Some (BadParameter ''bad request'')])
   = (Fail (BadParameter ''bad request''), (sample_store [])\<lparr>calls := 1\<rparr>)"
  by (simp add: counting_def store_Operator_def request_def sample_store_def)

lemma refused_transient: "IsConnectionRefusedError refused"
  by (simp add: IsConnectionRefusedError_def refused_def)

lemma retry_Return: "fn w = (Return v, w1) \<Longrightarrow> retry fn w = Some (Return v, w1)"
  by (simp add: retry_unfold attempt_Return)

lemma retry_Fail_permanent:
  "fn w = (Fail e, w1) \<Longrightarrow> \<not> IsConnectionRefusedError e \<Longrightarrow>
   retry fn w = Some (Fail (trace_Wrap e), w1)"
  by (simp add: retry_unfold attempt_permanent)

lemma trace_Wrap_idem: "trace_Wrap (trace_Wrap e) = trace_Wrap e"
  by (cases e) simp_all

lemma IsConnectionRefusedError_Wrap:
  "IsConnectionRefusedError (trace_Wrap e) = IsConnectionRefusedError e"
  by (simp add: IsConnectionRefusedError_def trace_Unwrap_Wrap)

section \<open>Error classification of the retry wrapper\<close>

text \<open>
  C1. The closure that \<open>retry\<close> hands to the backoff loop sorts errors into two classes.
  At every attempt \<open>i\<close> of the loop: when the wrapped function fails with an error that
  is not connection-refused, the loop stops at once and returns that error, in the state
  the single call left; when it fails with a connection-refused error and the context is
  not done by the end of the pause, the loop goes on to attempt \<open>i + 1\<close> after the pause.
  For every counted function that fails twice with a connection-refused error and then
  succeeds (the two pauses ending before the ceiling), \<open>retry\<close> returns success and the
  function has been called exactly 3 times; for every counted function that fails once
  with another error, \<open>retry\<close> returns that error, with a trace, after exactly 1 call.
\<close>

theorem retry_classifies_errors:
  "(fn w = (Fail e, w1) \<and> \<not> IsConnectionRefusedError e \<longrightarrow>
      RetryWithInterval ctx b i (retry_attempt fn) w = Some (Fail e, w1))
   \<and> (fn' w' = (Fail e', w1') \<and> IsConnectionRefusedError e' \<and> \<not> Done ctx' (now w1' + b' i') \<longrightarrow>
      RetryWithInterval ctx' b' i' (retry_attempt fn') w' =
        RetryWithInterval ctx' b' (Suc i') (retry_attempt fn') (w1'\<lparr>now := now w1' + b' i'\<rparr>))
   \<and> (counting g s = (Fail e1, s1) \<and> IsConnectionRefusedError e1
        \<and> now s1 + pauses s 0 < now s + maxRetryElapsedTime
        \<and> counting g (s1\<lparr>now := now s1 + pauses s 0\<rparr>) = (Fail e2, s2)
        \<and> IsConnectionRefusedError e2
        \<and> now s2 + pauses s 1 < now s + maxRetryElapsedTime
        \<and> counting g (s2\<lparr>now := now s2 + pauses s 1\<rparr>) = (Return v, s3) \<longrightarrow>
      retry (counting g) s = Some (Return v, s3) \<and> calls s3 = calls s + 3)
   \<and> (counting h t = (Fail e3, t1) \<and> \<not> IsConnectionRefusedError e3 \<longrightarrow>
      retry (counting h) t = Some (Fail (trace_Wrap e3), t1) \<and> calls t1 = calls t + 1)"
proof (intro conjI impI)
  assume "fn w = (Fail e, w1) \<and> \<not> IsConnectionRefusedError e"
  then show "RetryWithInterval ctx b i (retry_attempt fn) w = Some (Fail e, w1)"
    by (simp add: attempt_permanent)
next
  assume "fn' w' = (Fail e', w1') \<and> IsConnectionRefusedError e' \<and> \<not> Done ctx' (now w1' + b' i')"
  then show "RetryWithInterval ctx' b' i' (retry_attempt fn') w' =
        RetryWithInterval ctx' b' (Suc i') (retry_attempt fn') (w1'\<lparr>now := now w1' + b' i'\<rparr>)"
    by (simp add: attempt_transient)
next
  assume a: "counting g s = (Fail e1, s1) \<and> IsConnectionRefusedError e1
        \<and> now s1 + pauses s 0 < now s + maxRetryElapsedTime
        \<and> counting g (s1\<lparr>now := now s1 + pauses s 0\<rparr>) = (Fail e2, s2)
        \<and> IsConnectionRefusedError e2
        \<and> now s2 + pauses s 1 < now s + maxRetryElapsedTime
        \<and> counting g (s2\<lparr>now := now s2 + pauses s 1\<rparr>) = (Return v, s3)"
  let ?ctx = "WithTimeout Background maxRetryElapsedTime (now s)"
  let ?f = "retry_attempt (counting g)"
  have "RetryWithInterval ?ctx (pauses s) 0 ?f s =
        RetryWithInterval ?ctx (pauses s) 1 ?f (s1\<lparr>now := now s1 + pauses s 0\<rparr>)"
    using a by (simp add: attempt_transient Done_retry_ctx)
  also have "\<dots> = RetryWithInterval ?ctx (pauses s) 2 ?f (s2\<lparr>now := now s2 + pauses s 1\<rparr>)"
    using a attempt_transient [of "counting g" "s1\<lparr>now := now s1 + pauses s 0\<rparr>" e2 s2 ?ctx "pauses s" 1]
    by (simp add: Done_retry_ctx numeral_2_eq_2)
  also have "\<dots> = Some (Return v, s3)"
    using a by (simp add: attempt_Return)
  finally show "retry (counting g) s = Some (Return v, s3)"
    by (simp add: retry_unfold)
  show "calls s3 = calls s + 3"
    using a counting_calls [of g s "Fail e1" s1]
      counting_calls [of g "s1\<lparr>now := now s1 + pauses s 0\<rparr>" "Fail e2" s2]
      counting_calls [of g "s2\<lparr>now := now s2 + pauses s 1\<rparr>" "Return v" s3]
    by simp
next
  assume a: "counting h t = (Fail e3, t1) \<and> \<not> IsConnectionRefusedError e3"
  then show "retry (counting h) t = Some (Fail (trace_Wrap e3), t1)"
    by (simp add: retry_unfold attempt_permanent)
  show "calls t1 = calls t + 1"
    using a counting_calls [of h t "Fail e3" t1] by simp
qed

theorem retry_classifies_errors_witness:
  "IsConnectionRefusedError refused
   \<and> \<not> IsConnectionRefusedError (BadParameter ''bad request'')
   \<and> retry (counting (SetOperationState store_Operator sample_key sample_request))
        (sample_store [Some refused, Some refused])
      = Some (Return (), (sample_store [])\<lparr>calls := 3, now := 1500000000,
                                            st_state := Some sample_request\<rparr>)
   \<and> retry (counting (SetOperationState store_Operator sample_key sample_request))
        (sample_store [Some (BadParameter ''bad request'')])
      = Some (Fail (TraceErr (BadParameter ''bad request'')), (sample_store [])\<lparr>calls := 1\<rparr>)"
  using retry_classifies_errors
    [where g = "SetOperationState store_Operator sample_key sample_request"
       and s = "sample_store [Some refused, Some refused]"
       and ?e1.0 = refused and ?s1.0 = "(sample_store [Some refused])\<lparr>calls := 1\<rparr>"
       and ?e2.0 = refused and ?s2.0 = "(sample_store [])\<lparr>calls := 2, now := 500000000\<rparr>"
       and v = "()"
       and ?s3.0 = "(sample_store [])\<lparr>calls := 3, now := 1500000000, st_state := Some sample_request\<rparr>"
       and h = "SetOperationState store_Operator sample_key sample_request"
       and t = "sample_store [Some (BadParameter ''bad request'')]"
       and ?e3.0 = "BadParameter ''bad request''"
       and ?t1.0 = "(sample_store [])\<lparr>calls := 1\<rparr>"
       and fn = "SetOperationState store_Operator sample_key sample_request"
       and w = "sample_store [Some (BadParameter ''bad request'')]"
       and e = "BadParameter ''bad request''"
       and ?w1.0 = "(sample_store [])\<lparr>calls := 1\<rparr>"
       and fn' = "SetOperationState store_Operator sample_key sample_request"
       and w' = "sample_store [Some refused, Some refused]"
       and e' = refused
       and w1' = "(sample_store [Some refused])\<lparr>calls := 1\<rparr>"
       and ctx' = "WithTimeout Background maxRetryElapsedTime 0"
       and b' = "\<lambda>i. 500000000 * 2 ^ i" and i' = 0]
    sample_flaky_1 sample_flaky_2 sample_flaky_3 sample_broken refused_transient
  by (simp add: IsConnectionRefusedError_def sample_store_def maxRetryElapsedTime_def Minute_def)


section \<open>The command line of a remote phase\<close>

text \<open>
  C7. For every phase identifier and Force flag, \<open>RunCommand\<close> calls the runner with the
  argument vector \<open>system envars --phase <phase id>\<close>, with \<open>--force\<close> appended exactly
  when Force is set, and returns the runner's result and state unchanged.
\<close>

theorem RunCommand_argv:
  "RunCommand r ctx (Some runner) server params w =
     Run runner ctx server
       ([''system'', ''envars'', ''--phase'', PhaseID params]
          @ (if Force params then [''--force''] else [])) w"
  by (simp add: RunCommand_def Let_def)

theorem RunCommand_argv_witness:
  "RunCommand sample_engine Background (Some sample_runner) sample_server
     \<lparr>PhaseID = ''/masters/node-1'', Force = True\<rparr> (sample_store [])
   = (Return (), (sample_store [])\<lparr>logged := map (Pair DebugLevel)
        [''system'', ''envars'', ''--phase'', ''/masters/node-1'', ''--force'']\<rparr>)
   \<and> RunCommand sample_engine Background (Some sample_runner) sample_server
     \<lparr>PhaseID = ''/nodes/node-3'', Force = False\<rparr> (sample_store [])
   = (Return (), (sample_store [])\<lparr>logged := map (Pair DebugLevel)
        [''system'', ''envars'', ''--phase'', ''/nodes/node-3'']\<rparr>)"
  using RunCommand_argv [of sample_engine Background sample_runner sample_server
          "\<lparr>PhaseID = ''/masters/node-1'', Force = True\<rparr>" "sample_store []"]
        RunCommand_argv [of sample_engine Background sample_runner sample_server
          "\<lparr>PhaseID = ''/nodes/node-3'', Force = False\<rparr>" "sample_store []"]
  by (simp add: sample_runner_def sample_store_def)

section \<open>Construction of the state machine\<close>

lemma checkAndSetDefaults_ok:
  "checkAndSetDefaults config = (Return u, config1) \<Longrightarrow>
     cfg_Operation config \<noteq> None \<and> cfg_Operator config \<noteq> None \<and> cfg_Runner config \<noteq> None
     \<and> cfg_Operation config1 = cfg_Operation config
     \<and> cfg_Operator config1 = cfg_Operator config
     \<and> cfg_Runner config1 = cfg_Runner config
     \<and> cfg_Emitter config1 = cfg_Emitter config
     \<and> cfg_FieldLogger config1 \<noteq> None"
  by (auto simp: checkAndSetDefaults_def split: option.splits if_splits)

lemma New_Return:
  "New config = Return machine \<Longrightarrow>
     \<exists>config1. checkAndSetDefaults config = (Return (), config1)
       \<and> fsm_Engine machine = \<lparr>eng_Config = config1, eng_spec = configToExecutor config1,
                                eng_operator = \<lparr>Operator = cfg_Operator config1\<rparr>\<rparr>
       \<and> fsm_Runner machine = cfg_Runner config1
       \<and> fsm_preExec machine = Some (UpdateProgress (fsm_Engine machine))"
  by (auto simp: New_def libfsm_New_def SetPreExec_def Let_def split: prod.splits outcome.splits)

lemma sample_config_checked:
  "checkAndSetDefaults sample_config =
     (Return (), sample_config\<lparr>cfg_FieldLogger :=
         Some \<lparr>lg_Fields = [(''trace.component'', ''environ'')], lg_Key = Key sample_operation,
               lg_Operator = Some store_Operator, lg_Server = None\<rparr>\<rparr>)"
  by (simp add: checkAndSetDefaults_def sample_config_def)

lemma New_sample_config: "New sample_config = Return sample_machine"
  by (simp add: New_def sample_config_checked libfsm_New_def SetPreExec_def sample_machine_def
      sample_engine_def Let_def)
     (simp add: sample_config_def)

text \<open>
  C10. \<open>New\<close> validates its configuration. When Operation, Operator or Runner is nil it
  returns no machine and a BadParameter error. When all three are present the check
  passes and \<open>New\<close> returns a machine whose engine holds the checked configuration: a
  logger that was given is kept and a nil logger is replaced by the default logger.
  Every machine that \<open>New\<close> returns holds an engine whose Operation, Operator (also the
  one inside the retrying operator), Runner and logger are not nil.
\<close>

theorem New_validates_config:
  "(cfg_Operation config = None \<or> cfg_Operator config = None \<or> cfg_Runner config = None \<longrightarrow>
      (\<exists>m. New config = Fail (TraceErr (BadParameter m))))
   \<and> (cfg_Operation config \<noteq> None \<and> cfg_Operator config \<noteq> None \<and> cfg_Runner config \<noteq> None \<longrightarrow>
      (\<exists>machine. New config = Return machine
         \<and> checkAndSetDefaults config = (Return (), eng_Config (fsm_Engine machine))
         \<and> (cfg_FieldLogger config \<noteq> None \<longrightarrow>
              cfg_FieldLogger (eng_Config (fsm_Engine machine)) = cfg_FieldLogger config)
         \<and> (cfg_FieldLogger config = None \<longrightarrow>
              cfg_FieldLogger (eng_Config (fsm_Engine machine)) =
                Some \<lparr>lg_Fields = [(''trace.component'', ''environ'')],
                      lg_Key = Key (the (cfg_Operation config)),
                      lg_Operator = cfg_Operator config, lg_Server = None\<rparr>)))
   \<and> (New config = Return m1 \<longrightarrow>
        cfg_Operation (eng_Config (fsm_Engine m1)) = cfg_Operation config
        \<and> cfg_Operator (eng_Config (fsm_Engine m1)) = cfg_Operator config
        \<and> cfg_Runner (eng_Config (fsm_Engine m1)) = cfg_Runner config
        \<and> Operator (eng_operator (fsm_Engine m1)) = cfg_Operator config
        \<and> fsm_Runner m1 = cfg_Runner config
        \<and> cfg_Operation config \<noteq> None \<and> cfg_Operator config \<noteq> None
        \<and> cfg_Runner config \<noteq> None
        \<and> cfg_FieldLogger (eng_Config (fsm_Engine m1)) \<noteq> None)"
proof -
  have A: "cfg_Operation config = None \<or> cfg_Operator config = None \<or> cfg_Runner config = None \<longrightarrow>
      (\<exists>m. New config = Fail (TraceErr (BadParameter m)))"
    by (auto simp: New_def checkAndSetDefaults_def trace_BadParameter_def split: option.splits)
  have B: "cfg_Operation config \<noteq> None \<and> cfg_Operator config \<noteq> None \<and> cfg_Runner config \<noteq> None \<longrightarrow>
      (\<exists>machine. New config = Return machine
         \<and> checkAndSetDefaults config = (Return (), eng_Config (fsm_Engine machine))
         \<and> (cfg_FieldLogger config \<noteq> None \<longrightarrow>
              cfg_FieldLogger (eng_Config (fsm_Engine machine)) = cfg_FieldLogger config)
         \<and> (cfg_FieldLogger config = None \<longrightarrow>
              cfg_FieldLogger (eng_Config (fsm_Engine machine)) =
                Some \<lparr>lg_Fields = [(''trace.component'', ''environ'')],
                      lg_Key = Key (the (cfg_Operation config)),
                      lg_Operator = cfg_Operator config, lg_Server = None\<rparr>))"
    by (auto simp: New_def checkAndSetDefaults_def libfsm_New_def SetPreExec_def Let_def)
  have C: "New config = Return m1 \<longrightarrow>
        cfg_Operation (eng_Config (fsm_Engine m1)) = cfg_Operation config
        \<and> cfg_Operator (eng_Config (fsm_Engine m1)) = cfg_Operator config
        \<and> cfg_Runner (eng_Config (fsm_Engine m1)) = cfg_Runner config
        \<and> Operator (eng_operator (fsm_Engine m1)) = cfg_Operator config
        \<and> fsm_Runner m1 = cfg_Runner config
        \<and> cfg_Operation config \<noteq> None \<and> cfg_Operator config \<noteq> None
        \<and> cfg_Runner config \<noteq> None
        \<and> cfg_FieldLogger (eng_Config (fsm_Engine m1)) \<noteq> None"
  proof
    assume n: "New config = Return m1"
    from New_Return [OF n] obtain config1 where
      c: "checkAndSetDefaults config = (Return (), config1)" and
      e: "fsm_Engine m1 = \<lparr>eng_Config = config1, eng_spec = configToExecutor config1,
                                eng_operator = \<lparr>Operator = cfg_Operator config1\<rparr>\<rparr>" and
      r: "fsm_Runner m1 = cfg_Runner config1"
      by blast
    from checkAndSetDefaults_ok [OF c]
    show "cfg_Operation (eng_Config (fsm_Engine m1)) = cfg_Operation config
        \<and> cfg_Operator (eng_Config (fsm_Engine m1)) = cfg_Operator config
        \<and> cfg_Runner (eng_Config (fsm_Engine m1)) = cfg_Runner config
        \<and> Operator (eng_operator (fsm_Engine m1)) = cfg_Operator config
        \<and> fsm_Runner m1 = cfg_Runner config
        \<and> cfg_Operation config \<noteq> None \<and> cfg_Operator config \<noteq> None
        \<and> cfg_Runner config \<noteq> None
        \<and> cfg_FieldLogger (eng_Config (fsm_Engine m1)) \<noteq> None"
      by (simp add: e r)
  qed
  show ?thesis
    by (rule conjI [OF A conjI [OF B C]])
qed

theorem New_validates_config_witness:
  "cfg_Runner (sample_config\<lparr>cfg_Runner := None\<rparr>) = None
   \<and> (\<exists>m. New (sample_config\<lparr>cfg_Runner := None\<rparr>) = Fail (TraceErr (BadParameter m)))
   \<and> cfg_FieldLogger sample_config = None
   \<and> New sample_config = Return sample_machine
   \<and> cfg_FieldLogger (eng_Config (fsm_Engine sample_machine)) \<noteq> None
   \<and> cfg_Operation (eng_Config (fsm_Engine sample_machine)) = Some sample_operation"
proof -
  have 1: "\<exists>m. New (sample_config\<lparr>cfg_Runner := None\<rparr>) = Fail (TraceErr (BadParameter m))"
    using New_validates_config [of "sample_config\<lparr>cfg_Runner := None\<rparr>" sample_machine]
    by simp
  have 2: "cfg_FieldLogger (eng_Config (fsm_Engine sample_machine)) \<noteq> None
     \<and> cfg_Operation (eng_Config (fsm_Engine sample_machine)) = cfg_Operation sample_config"
    using New_validates_config [of sample_config sample_machine] New_sample_config by simp
  show ?thesis
    using 1 2 New_sample_config by (simp add: sample_config_def)
qed

section \<open>Resolving a phase to its executor\<close>

lemma quoted_sample: "quoted ''/init'' = [CHR 0x22] @ ''/init'' @ [CHR 0x22]"
  by (simp add: quoted_def escaped_def)

lemma quoted_escapes:
  "quoted [CHR ''/'', CHR ''a'', CHR 0x22, CHR ''b'']
     = [CHR 0x22, CHR ''/'', CHR ''a'', CHR 0x5C, CHR 0x22, CHR ''b'', CHR 0x22]"
  by (simp add: quoted_def escaped_def)

text \<open>
  C6. For the engine of every machine built by \<open>New\<close>: a phase whose identifier starts
  with the masters prefix or with the nodes prefix resolves to the sync executor (built
  with the configuration's emitter and operation and a logger for the phase); a phase
  whose identifier starts with neither gets no executor and a BadParameter error, whose
  message, for an identifier of ASCII characters, is \<open>unknown phase\<close> followed by the
  identifier as \<^verbatim>\<open>%q\<close> prints it.
\<close>

theorem GetExecutor_by_prefix:
  assumes "New config = Return machine"
  shows "(HasPrefix (phase_ID (ep_Phase params)) libphase_Masters
            \<or> HasPrefix (phase_ID (ep_Phase params)) libphase_Nodes \<longrightarrow>
          (\<exists>operation logger. cfg_Operation config = Some operation
             \<and> lg_Key logger = ExecutorParams_Key params
             \<and> lg_Server logger = Option.bind (phase_Data (ep_Phase params)) data_Server
             \<and> GetExecutor (fsm_Engine machine) params remote
                 = Return (Sync params (cfg_Emitter config) operation logger)))
       \<and> (\<not> HasPrefix (phase_ID (ep_Phase params)) libphase_Masters
            \<and> \<not> HasPrefix (phase_ID (ep_Phase params)) libphase_Nodes \<longrightarrow>
          (\<exists>m. GetExecutor (fsm_Engine machine) params remote = Fail (TraceErr (BadParameter m))
             \<and> (IsASCII (phase_ID (ep_Phase params)) \<longrightarrow>
                  m = ''unknown phase '' @ quoted (phase_ID (ep_Phase params)))))"
proof -
  from New_Return [OF assms] obtain config1 where
    c: "checkAndSetDefaults config = (Return (), config1)" and
    e: "fsm_Engine machine = \<lparr>eng_Config = config1, eng_spec = configToExecutor config1,
                                eng_operator = \<lparr>Operator = cfg_Operator config1\<rparr>\<rparr>"
    by blast
  from checkAndSetDefaults_ok [OF c] obtain operation where
    o: "cfg_Operation config = Some operation" "cfg_Operation config1 = Some operation"
       "cfg_Emitter config1 = cfg_Emitter config"
    by auto
  show ?thesis
    using o by (simp add: GetExecutor_def e configToExecutor_def Let_def libphase_NewSync_def
        trace_BadParameter_def split: option.splits)
qed

theorem GetExecutor_by_prefix_witness:
  "New sample_config = Return sample_machine
   \<and> HasPrefix ''/nodes/node-3'' libphase_Nodes
   \<and> is_Sync (GetExecutor (fsm_Engine sample_machine)
        \<lparr>ep_Plan = sample_plan Unstarted, ep_Phase = sample_phase ''/nodes/node-3'' 3 Unstarted\<rparr>
        (Remote 0))
   \<and> \<not> HasPrefix ''/init'' libphase_Masters \<and> \<not> HasPrefix ''/init'' libphase_Nodes
   \<and> IsASCII ''/init''
   \<and> GetExecutor (fsm_Engine sample_machine)
        \<lparr>ep_Plan = sample_plan Unstarted, ep_Phase = sample_phase ''/init'' 0 Unstarted\<rparr>
        (Remote 0)
      = Fail (TraceErr (BadParameter (''unknown phase '' @ [CHR 0x22] @ ''/init'' @ [CHR 0x22])))
   \<and> IsASCII [CHR ''/'', CHR ''a'', CHR 0x22, CHR ''b'']
   \<and> GetExecutor (fsm_Engine sample_machine)
        \<lparr>ep_Plan = sample_plan Unstarted,
          ep_Phase = sample_phase [CHR ''/'', CHR ''a'', CHR 0x22, CHR ''b''] 0 Unstarted\<rparr>
        (Remote 0)
      = Fail (TraceErr (BadParameter (''unknown phase '' @
          [CHR 0x22, CHR ''/'', CHR ''a'', CHR 0x5C, CHR 0x22, CHR ''b'', CHR 0x22])))"
proof -
  let ?q = "[CHR ''/'', CHR ''a'', CHR 0x22, CHR ''b'']"
  let ?pq = "\<lparr>ep_Plan = sample_plan Unstarted, ep_Phase = sample_phase ?q 0 Unstarted\<rparr>"
  have idq: "phase_ID (ep_Phase ?pq) = ?q"
    by (simp add: sample_phase_def)
  have hq: "\<not> HasPrefix ?q libphase_Masters \<and> \<not> HasPrefix ?q libphase_Nodes"
    by (simp add: HasPrefix_def libphase_Masters_def libphase_Nodes_def)
  have aq: "IsASCII ?q"
    by (simp add: IsASCII_def)
  have gq: "GetExecutor (fsm_Engine sample_machine) ?pq (Remote 0)
      = Fail (TraceErr (BadParameter (''unknown phase '' @ quoted ?q)))"
    using GetExecutor_by_prefix [OF New_sample_config, of ?pq "Remote 0"] hq aq
    unfolding idq by blast
  let ?p3 = "\<lparr>ep_Plan = sample_plan Unstarted,
              ep_Phase = sample_phase ''/nodes/node-3'' 3 Unstarted\<rparr>"
  let ?p0 = "\<lparr>ep_Plan = sample_plan Unstarted, ep_Phase = sample_phase ''/init'' 0 Unstarted\<rparr>"
  have id3: "phase_ID (ep_Phase ?p3) = ''/nodes/node-3''"
    and id0: "phase_ID (ep_Phase ?p0) = ''/init''"
    by (simp_all add: sample_phase_def)
  have h3: "HasPrefix ''/nodes/node-3'' libphase_Nodes"
    by (simp add: HasPrefix_def libphase_Nodes_def)
  have h0: "\<not> HasPrefix ''/init'' libphase_Masters \<and> \<not> HasPrefix ''/init'' libphase_Nodes"
    by (simp add: HasPrefix_def libphase_Masters_def libphase_Nodes_def)
  have a0: "IsASCII ''/init''"
    by (simp add: IsASCII_def)
  have "is_Sync (GetExecutor (fsm_Engine sample_machine) ?p3 (Remote 0))"
    using GetExecutor_by_prefix [OF New_sample_config, of ?p3 "Remote 0"] h3
    unfolding id3 by (auto simp: is_Sync_def)
  moreover have "GetExecutor (fsm_Engine sample_machine) ?p0 (Remote 0)
      = Fail (TraceErr (BadParameter (''unknown phase '' @ quoted ''/init'')))"
    using GetExecutor_by_prefix [OF New_sample_config, of ?p0 "Remote 0"] h0 a0
    unfolding id0 by blast
  ultimately show ?thesis
    using New_sample_config h3 h0 a0 aq gq unfolding quoted_sample quoted_escapes by blast
qed

section \<open>Requests to the reference store\<close>

lemma request_delivered:
  "st_transport w = [] \<Longrightarrow> request handler w = handler (w\<lparr>calls := Suc (calls w)\<rparr>)"
  by (simp add: request_def Let_def)

lemma request_refused:
  "st_transport w = Some e # rest \<Longrightarrow>
   request handler w = (Fail e, w\<lparr>calls := Suc (calls w), st_transport := rest\<rparr>)"
  by (simp add: request_def Let_def)

lemma store_GetPlan:
  assumes "cfg_Operation (eng_Config r) = Some operation"
    and "Operator (eng_operator r) = Some store_Operator"
    and "st_transport w = []" and "st_plan w = Some plan"
  shows "GetPlan r w = Some (Return plan, w\<lparr>calls := Suc (calls w)\<rparr>)"
proof -
  let ?fn = "\<lambda>w0. case GetOperationPlan store_Operator (Key operation) w0 of
                     (res, w1) \<Rightarrow> (Wrap_outcome res, w1)"
  have "?fn w = (Return plan, w\<lparr>calls := Suc (calls w)\<rparr>)"
    using assms(3,4) by (simp add: store_Operator_def request_delivered)
  then have "retry ?fn w = Some (Return plan, w\<lparr>calls := Suc (calls w)\<rparr>)"
    by (rule retry_Return)
  then show ?thesis
    using assms(1,2) by (simp add: GetPlan_def retrying_GetOperationPlan_def)
qed

lemma store_CreateProgressEntry:
  assumes "Operator ro = Some store_Operator" and "st_transport w = []"
  shows "retrying_CreateProgressEntry ro key entry w =
     Some (Return (), w\<lparr>calls := Suc (calls w), st_progress := st_progress w @ [entry]\<rparr>)"
proof -
  have "CreateProgressEntry store_Operator key entry w =
      (Return (), w\<lparr>calls := Suc (calls w), st_progress := st_progress w @ [entry]\<rparr>)"
    using assms(2) by (simp add: store_Operator_def request_delivered)
  then have "retry (CreateProgressEntry store_Operator key entry) w =
      Some (Return (), w\<lparr>calls := Suc (calls w), st_progress := st_progress w @ [entry]\<rparr>)"
    by (rule retry_Return)
  then show ?thesis
    using assms(1) by (simp add: retrying_CreateProgressEntry_def)
qed

lemma store_CreateProgressEntry_refused:
  assumes "Operator ro = Some store_Operator" and "st_transport w = Some e # rest"
    and "\<not> IsConnectionRefusedError e"
  shows "retrying_CreateProgressEntry ro key entry w =
     Some (Fail (trace_Wrap e), w\<lparr>calls := Suc (calls w), st_transport := rest\<rparr>)"
proof -
  have "CreateProgressEntry store_Operator key entry w =
      (Fail e, w\<lparr>calls := Suc (calls w), st_transport := rest\<rparr>)"
    using assms(2) by (simp add: store_Operator_def request_refused)
  then have "retry (CreateProgressEntry store_Operator key entry) w =
      Some (Fail (trace_Wrap e), w\<lparr>calls := Suc (calls w), st_transport := rest\<rparr>)"
    using assms(3) by (rule retry_Fail_permanent)
  then show ?thesis
    using assms(1) by (simp add: retrying_CreateProgressEntry_def trace_Wrap_idem)
qed

lemma sample_engine_fields:
  "cfg_Operation (eng_Config sample_engine) = Some sample_operation"
  "Operator (eng_operator sample_engine) = Some store_Operator"
  "cfg_FieldLogger (eng_Config sample_engine) =
     Some \<lparr>lg_Fields = [(''trace.component'', ''environ'')], lg_Key = Key sample_operation,
           lg_Operator = Some store_Operator, lg_Server = None\<rparr>"
  by (simp_all add: sample_engine_def sample_config_def Let_def)

lemma sample_GetPlan:
  "GetPlan sample_engine (planned_store st []) =
     Some (Return (sample_plan st), (planned_store st [])\<lparr>calls := 1\<rparr>)"
  using store_GetPlan [of sample_engine sample_operation "planned_store st []" "sample_plan st"]
  by (simp add: sample_engine_fields planned_store_def sample_store_def)

lemma sample_FindPhase:
  "FindPhase (sample_plan st) ''/masters/node-2'' = Return (sample_phase ''/masters/node-2'' 2 st)"
  by (simp add: FindPhase_def sample_plan_def sample_phase_def)

lemma request_next_delivered:
  "st_transport w = None # rest \<Longrightarrow>
   request handler w = handler (w\<lparr>calls := Suc (calls w), st_transport := rest\<rparr>)"
  by (simp add: request_def Let_def)

lemma store_GetPlan_next:
  assumes "cfg_Operation (eng_Config r) = Some operation"
    and "Operator (eng_operator r) = Some store_Operator"
    and "st_transport w = None # rest" and "st_plan w = Some plan"
  shows "GetPlan r w = Some (Return plan, w\<lparr>calls := Suc (calls w), st_transport := rest\<rparr>)"
proof -
  let ?fn = "\<lambda>w0. case GetOperationPlan store_Operator (Key operation) w0 of
                     (res, w1) \<Rightarrow> (Wrap_outcome res, w1)"
  have "?fn w = (Return plan, w\<lparr>calls := Suc (calls w), st_transport := rest\<rparr>)"
    using assms(3,4) by (simp add: store_Operator_def request_next_delivered)
  then have "retry ?fn w = Some (Return plan, w\<lparr>calls := Suc (calls w), st_transport := rest\<rparr>)"
    by (rule retry_Return)
  then show ?thesis
    using assms(1,2) by (simp add: GetPlan_def retrying_GetOperationPlan_def)
qed

lemma sample_GetPlan_next:
  "GetPlan sample_engine (planned_store st (None # rest)) =
     Some (Return (sample_plan st), (planned_store st rest)\<lparr>calls := 1\<rparr>)"
  using store_GetPlan_next [of sample_engine sample_operation "planned_store st (None # rest)"
      rest "sample_plan st"]
  by (simp add: sample_engine_fields planned_store_def sample_store_def)

lemma store_SetOperationState:
  assumes "Operator ro = Some store_Operator" and "st_transport w = []"
  shows "retrying_SetOperationState ro key req w =
     Some (Return (), w\<lparr>calls := Suc (calls w), st_state := Some req\<rparr>)"
proof -
  have "SetOperationState store_Operator key req w =
      (Return (), w\<lparr>calls := Suc (calls w), st_state := Some req\<rparr>)"
    using assms(2) by (simp add: store_Operator_def request_delivered)
  then have "retry (SetOperationState store_Operator key req) w =
      Some (Return (), w\<lparr>calls := Suc (calls w), st_state := Some req\<rparr>)"
    by (rule retry_Return)
  then show ?thesis
    using assms(1) by (simp add: retrying_SetOperationState_def)
qed

lemma sample_plan_IsCompleted:
  "IsCompleted (sample_plan Completed)" "\<not> IsCompleted (sample_plan Unstarted)"
  by (simp_all add: IsCompleted_def sample_plan_def sample_phase_def)


lemma sample_Complete_failed:
  "FailOperation (Key sample_operation) (eng_operator sample_engine) msg
      ((planned_store Unstarted [])\<lparr>calls := 1\<rparr>)
   = Some (Return (), (planned_store Unstarted [])\<lparr>calls := 2,
        st_state := Some \<lparr>req_State = OperationStateFailed, req_Message = msg\<rparr>\<rparr>)"
  using store_SetOperationState [of "eng_operator sample_engine"
      "(planned_store Unstarted [])\<lparr>calls := 1\<rparr>" "Key sample_operation"
      "\<lparr>req_State = OperationStateFailed, req_Message = msg\<rparr>"]
  by (simp add: FailOperation_def sample_engine_fields planned_store_def sample_store_def)

section \<open>Progress entries\<close>

lemma sint_len:
  "n < 2 ^ 63 \<Longrightarrow> sint (word_of_nat n :: GoInt) = int n"
proof -
  assume a: "n < 2 ^ 63"
  have "sint (word_of_nat n :: GoInt) = signed_take_bit 63 (int n)"
    using sint_sbintrunc' [of "int n", where ?'a = 64] by simp
  also have "\<dots> = int n"
    using a by (simp add: signed_take_bit_int_eq_self)
  finally show ?thesis by simp
qed

lemma sint_in_range:
  "- (2 ^ 63) \<le> x \<Longrightarrow> x < 2 ^ 63 \<Longrightarrow> sint (word_of_int x :: GoInt) = x"
  by (simp add: sint_sbintrunc' signed_take_bit_int_eq_self)

lemma utils_Max_len:
  assumes "n < 2 ^ 63"
  shows "utils_Max (word_of_nat n) 1 = (word_of_nat (max n 1) :: GoInt)"
proof (cases "1 < n")
  case True
  then show ?thesis
    using assms by (simp add: utils_Max_def word_sless_alt sint_len max_def)
next
  case False
  then have "n = 0 \<or> n = 1" by auto
  then show ?thesis
    by (auto simp: utils_Max_def word_sless_alt max_def)
qed

lemma Go_quo_100:
  assumes "n < 2 ^ 63"
  shows "Go_quo 100 (utils_Max (word_of_nat n) 1) = word_of_int (100 div int (max n 1))"
proof -
  have m: "max n 1 < 2 ^ 63" using assms by (simp add: max_def)
  have "sint (word_of_nat (max n 1) :: GoInt) = int (max n 1)"
    by (rule sint_len [OF m])
  moreover have "(100 :: int) sdiv int (max n 1) = 100 div int (max n 1)"
    by (simp add: signed_divide_int_def sgn_if max_def)
  ultimately show ?thesis
    using assms by (simp add: Go_quo_def utils_Max_len)
qed

lemma Go_quo_four: "Go_quo 100 (utils_Max (word_of_nat 4) 1) = 25"
  using Go_quo_100 [of 4] by simp

lemma GetPlan_Operation:
  "GetPlan r w = Some (Return plan, w1) \<Longrightarrow> \<exists>operation. cfg_Operation (eng_Config r) = Some operation"
  by (cases "cfg_Operation (eng_Config r)") (simp_all add: GetPlan_def)

text \<open>What \<open>UpdateProgress\<close> does with the outcome of the progress write.\<close>

lemma UpdateProgress_unfold:
  assumes "GetPlan r w = Some (Return plan, w1)"
    and "FindPhase plan (PhaseID params) = Return phase"
    and "cfg_Operation (eng_Config r) = Some operation"
  shows "UpdateProgress r ctx params w =
     (case retrying_CreateProgressEntry (eng_operator r) (Key operation)
             (progressEntry (Key operation) plan phase (now w1)) w1 of
        None \<Rightarrow> None
      | Some (Panic, w2) \<Rightarrow> Some (Panic, w2)
      | Some (Fail err, w2) \<Rightarrow>
          (case log_line (cfg_FieldLogger (eng_Config r)) WarnLevel
                  ''Failed to create progress entry.'' w2 of
             (Return u, w3) \<Rightarrow> Some (Return (), w3)
           | (bad, w3) \<Rightarrow> Some (bad, w3))
      | Some (Return u, w2) \<Rightarrow> Some (Return (), w2))"
  using assms by (simp add: UpdateProgress_def Let_def)

text \<open>
  C3. When the plan is fetched and the phase is found, \<open>UpdateProgress\<close> hands the store
  the entry built from them: its message is the phase's description and its completion
  is Go's \<open>100 / utils.Max(len(plan.Phases), 1) * phase.Step\<close>. For a plan of \<open>n\<close>
  phases (any \<open>n\<close> a slice can hold) that is the integer \<open>100 div max n 1\<close> times the
  step, in 64 bits, and the very product when it fits in 64 bits; for a plan of 4 phases
  at step 2 it is 50.
\<close>

theorem UpdateProgress_completion:
  assumes "GetPlan r w = Some (Return plan, w1)"
    and "FindPhase plan (PhaseID params) = Return phase"
  shows "\<exists>operation entry.
      cfg_Operation (eng_Config r) = Some operation
    \<and> entry = progressEntry (Key operation) plan phase (now w1)
    \<and> UpdateProgress r ctx params w =
        (case retrying_CreateProgressEntry (eng_operator r) (Key operation) entry w1 of
           None \<Rightarrow> None
         | Some (Panic, w2) \<Rightarrow> Some (Panic, w2)
         | Some (Fail err, w2) \<Rightarrow>
             (case log_line (cfg_FieldLogger (eng_Config r)) WarnLevel
                     ''Failed to create progress entry.'' w2 of
                (Return u, w3) \<Rightarrow> Some (Return (), w3)
              | (bad, w3) \<Rightarrow> Some (bad, w3))
         | Some (Return u, w2) \<Rightarrow> Some (Return (), w2))
    \<and> pe_Message entry = phase_Description phase
    \<and> pe_Completion entry =
        Go_quo 100 (utils_Max (word_of_nat (length (plan_Phases plan))) 1) * phase_Step phase
    \<and> (length (plan_Phases plan) < 2 ^ 63 \<longrightarrow>
        pe_Completion entry =
          word_of_int (100 div int (max (length (plan_Phases plan)) 1) * sint (phase_Step phase)))
    \<and> (length (plan_Phases plan) < 2 ^ 63
         \<and> - (2 ^ 63) \<le> 100 div int (max (length (plan_Phases plan)) 1) * sint (phase_Step phase)
         \<and> 100 div int (max (length (plan_Phases plan)) 1) * sint (phase_Step phase) < 2 ^ 63 \<longrightarrow>
        sint (pe_Completion entry) =
          100 div int (max (length (plan_Phases plan)) 1) * sint (phase_Step phase))
    \<and> (length (plan_Phases plan) = 4 \<and> phase_Step phase = 2 \<longrightarrow> pe_Completion entry = 50)"
proof -
  from GetPlan_Operation [OF assms(1)] obtain operation where
    o: "cfg_Operation (eng_Config r) = Some operation" by blast
  let ?entry = "progressEntry (Key operation) plan phase (now w1)"
  have c: "pe_Completion ?entry =
        Go_quo 100 (utils_Max (word_of_nat (length (plan_Phases plan))) 1) * phase_Step phase"
    and m: "pe_Message ?entry = phase_Description phase"
    by (simp_all add: progressEntry_def)
  have i: "length (plan_Phases plan) < 2 ^ 63 \<longrightarrow>
        pe_Completion ?entry =
          word_of_int (100 div int (max (length (plan_Phases plan)) 1) * sint (phase_Step phase))"
    by (simp add: c Go_quo_100)
  have x: "length (plan_Phases plan) < 2 ^ 63
         \<and> - (2 ^ 63) \<le> 100 div int (max (length (plan_Phases plan)) 1) * sint (phase_Step phase)
         \<and> 100 div int (max (length (plan_Phases plan)) 1) * sint (phase_Step phase) < 2 ^ 63 \<longrightarrow>
        sint (pe_Completion ?entry) =
          100 div int (max (length (plan_Phases plan)) 1) * sint (phase_Step phase)"
  proof
    let ?v = "100 div int (max (length (plan_Phases plan)) 1) * sint (phase_Step phase)"
    assume a: "length (plan_Phases plan) < 2 ^ 63 \<and> - (2 ^ 63) \<le> ?v \<and> ?v < 2 ^ 63"
    then have lo: "- (2 ^ 63) \<le> ?v" and hi: "?v < 2 ^ 63"
      by blast+
    have "pe_Completion ?entry = word_of_int ?v"
      using i a by blast
    then have "sint (pe_Completion ?entry) = sint (word_of_int ?v :: GoInt)"
      by (rule arg_cong)
    also have "\<dots> = ?v"
      by (rule sint_in_range [OF lo hi])
    finally show "sint (pe_Completion ?entry) = ?v" .
  qed
  have f: "length (plan_Phases plan) = 4 \<and> phase_Step phase = 2 \<longrightarrow> pe_Completion ?entry = 50"
    using Go_quo_four by (simp add: c)
  show ?thesis
    using o UpdateProgress_unfold [OF assms o, of ctx] c m i x f by blast
qed

theorem UpdateProgress_completion_witness:
  "GetPlan sample_engine (planned_store Unstarted []) =
     Some (Return (sample_plan Unstarted), (planned_store Unstarted [])\<lparr>calls := 1\<rparr>)
   \<and> FindPhase (sample_plan Unstarted) ''/masters/node-2''
       = Return (sample_phase ''/masters/node-2'' 2 Unstarted)
   \<and> length (plan_Phases (sample_plan Unstarted)) = 4
   \<and> (\<exists>entry.
        UpdateProgress sample_engine Background \<lparr>PhaseID = ''/masters/node-2'', Force = False\<rparr>
          (planned_store Unstarted [])
        = Some (Return (), (planned_store Unstarted [])\<lparr>calls := 2, st_progress := [entry]\<rparr>)
        \<and> pe_Completion entry = 50
        \<and> pe_Message entry = ''Update /masters/node-2'')"
proof -
  let ?params = "\<lparr>PhaseID = ''/masters/node-2'', Force = False\<rparr>"
  let ?w1 = "(planned_store Unstarted [])\<lparr>calls := 1\<rparr>"
  have f: "FindPhase (sample_plan Unstarted) (PhaseID ?params)
       = Return (sample_phase ''/masters/node-2'' 2 Unstarted)"
    by (simp add: sample_FindPhase)
  have n: "length (plan_Phases (sample_plan Unstarted)) = 4"
    by (simp add: sample_plan_def)
  have s: "phase_Step (sample_phase ''/masters/node-2'' 2 Unstarted) = 2"
    "phase_Description (sample_phase ''/masters/node-2'' 2 Unstarted) = ''Update /masters/node-2''"
    by (simp_all add: sample_phase_def)
  from UpdateProgress_completion [OF sample_GetPlan f, where ctx = Background]
  obtain operation entry where
    u: "UpdateProgress sample_engine Background ?params (planned_store Unstarted []) =
        (case retrying_CreateProgressEntry (eng_operator sample_engine) (Key operation) entry ?w1 of
           None \<Rightarrow> None
         | Some (Panic, w2) \<Rightarrow> Some (Panic, w2)
         | Some (Fail err, w2) \<Rightarrow>
             (case log_line (cfg_FieldLogger (eng_Config sample_engine)) WarnLevel
                     ''Failed to create progress entry.'' w2 of
                (Return u, w3) \<Rightarrow> Some (Return (), w3)
              | (bad, w3) \<Rightarrow> Some (bad, w3))
         | Some (Return u, w2) \<Rightarrow> Some (Return (), w2))"
    and c: "pe_Completion entry = 50"
    and m: "pe_Message entry = ''Update /masters/node-2''"
    using n s by auto
  have "retrying_CreateProgressEntry (eng_operator sample_engine) (Key operation) entry ?w1
      = Some (Return (), ?w1\<lparr>calls := Suc (calls ?w1), st_progress := st_progress ?w1 @ [entry]\<rparr>)"
    by (rule store_CreateProgressEntry)
       (simp_all add: sample_engine_fields planned_store_def sample_store_def)
  then have "UpdateProgress sample_engine Background ?params (planned_store Unstarted [])
      = Some (Return (), (planned_store Unstarted [])\<lparr>calls := 2, st_progress := [entry]\<rparr>)"
    unfolding u by (simp add: planned_store_def sample_store_def)
  then show ?thesis
    using c m sample_GetPlan sample_FindPhase n by blast
qed

section \<open>Progress is advisory\<close>

lemma FindPhase_Fail:
  "FindPhase plan phaseID = Fail e \<Longrightarrow>
   phaseID \<notin> phase_ID ` set (concat (map FlattenPhase (plan_Phases plan)))"
  by (auto simp: FindPhase_def find_None_iff split: option.splits)

lemma UpdateProgress_Fail:
  assumes "UpdateProgress r ctx params w = Some (Fail e, w')"
  shows "(\<exists>e0. GetPlan r w = Some (Fail e0, w') \<and> e = trace_Wrap e0)
       \<or> (\<exists>plan e0. GetPlan r w = Some (Return plan, w')
             \<and> FindPhase plan (PhaseID params) = Fail e0 \<and> e = trace_Wrap e0)"
proof (cases "GetPlan r w")
  case None
  then show ?thesis using assms by (simp add: UpdateProgress_def)
next
  case (Some a)
  obtain res w1 where a: "a = (res, w1)" by (cases a)
  show ?thesis
  proof (cases res)
    case (Return plan)
    note g = Some [unfolded a Return]
    show ?thesis
    proof (cases "FindPhase plan (PhaseID params)")
      case (Return phase)
      from GetPlan_Operation [OF g] obtain operation where
        o: "cfg_Operation (eng_Config r) = Some operation" by blast
      have False
        using assms unfolding UpdateProgress_unfold [OF g Return o]
        by (auto simp: log_line_def split: option.splits prod.splits outcome.splits)
      then show ?thesis ..
    next
      case (Fail e0)
      then show ?thesis using assms g by (simp add: UpdateProgress_def)
    next
      case Panic
      then show ?thesis using assms g by (simp add: UpdateProgress_def)
    qed
  next
    case (Fail e0)
    then show ?thesis using assms Some a by (simp add: UpdateProgress_def)
  next
    case Panic
    then show ?thesis using assms Some a by (simp add: UpdateProgress_def)
  qed
qed

text \<open>
  C4. \<open>UpdateProgress\<close> is best-effort about the write. When the plan is fetched and the
  phase is found, a failure of the (retried) \<open>CreateProgressEntry\<close> call makes an engine
  with a logger write the warning and return no error. \<open>UpdateProgress\<close> returns an
  error only when \<open>GetPlan\<close> fails, or when the plan was fetched and the phase
  identifier is not in it; the error is that call's, with a trace.
\<close>

theorem UpdateProgress_best_effort:
  "(GetPlan r w = Some (Return plan, w1) \<and> FindPhase plan (PhaseID params) = Return phase
      \<and> cfg_Operation (eng_Config r) = Some operation
      \<and> cfg_FieldLogger (eng_Config r) = Some logger
      \<and> retrying_CreateProgressEntry (eng_operator r) (Key operation)
           (progressEntry (Key operation) plan phase (now w1)) w1 = Some (Fail err, w2) \<longrightarrow>
    UpdateProgress r ctx params w =
      Some (Return (), w2\<lparr>logged := logged w2 @ [(WarnLevel, ''Failed to create progress entry.'')]\<rparr>))
   \<and> (UpdateProgress r ctx params w = Some (Fail e, w') \<longrightarrow>
       (\<exists>e0. GetPlan r w = Some (Fail e0, w') \<and> e = trace_Wrap e0)
     \<or> (\<exists>plan0 e0. GetPlan r w = Some (Return plan0, w')
           \<and> FindPhase plan0 (PhaseID params) = Fail e0 \<and> e = trace_Wrap e0
           \<and> PhaseID params \<notin> phase_ID ` set (concat (map FlattenPhase (plan_Phases plan0)))))"
proof -
  have A: "GetPlan r w = Some (Return plan, w1) \<and> FindPhase plan (PhaseID params) = Return phase
      \<and> cfg_Operation (eng_Config r) = Some operation
      \<and> cfg_FieldLogger (eng_Config r) = Some logger
      \<and> retrying_CreateProgressEntry (eng_operator r) (Key operation)
           (progressEntry (Key operation) plan phase (now w1)) w1 = Some (Fail err, w2) \<longrightarrow>
    UpdateProgress r ctx params w =
      Some (Return (), w2\<lparr>logged := logged w2 @ [(WarnLevel, ''Failed to create progress entry.'')]\<rparr>)"
    by (simp add: UpdateProgress_def Let_def log_line_def)
  have B: "UpdateProgress r ctx params w = Some (Fail e, w') \<longrightarrow>
       (\<exists>e0. GetPlan r w = Some (Fail e0, w') \<and> e = trace_Wrap e0)
     \<or> (\<exists>plan0 e0. GetPlan r w = Some (Return plan0, w')
           \<and> FindPhase plan0 (PhaseID params) = Fail e0 \<and> e = trace_Wrap e0
           \<and> PhaseID params \<notin> phase_ID ` set (concat (map FlattenPhase (plan_Phases plan0))))"
    using UpdateProgress_Fail [of r ctx params w e w'] FindPhase_Fail by blast
  show ?thesis by (rule conjI [OF A B])
qed

theorem UpdateProgress_best_effort_witness:
  "GetPlan sample_engine (planned_store Unstarted [None, Some (BadParameter ''quota exceeded'')])
      = Some (Return (sample_plan Unstarted),
              (planned_store Unstarted [Some (BadParameter ''quota exceeded'')])\<lparr>calls := 1\<rparr>)
   \<and> UpdateProgress sample_engine Background \<lparr>PhaseID = ''/masters/node-2'', Force = False\<rparr>
        (planned_store Unstarted [None, Some (BadParameter ''quota exceeded'')])
      = Some (Return (), (planned_store Unstarted [])\<lparr>calls := 2,
                logged := [(WarnLevel, ''Failed to create progress entry.'')]\<rparr>)
   \<and> UpdateProgress sample_engine Background \<lparr>PhaseID = ''/init'', Force = False\<rparr>
        (planned_store Unstarted [])
      = Some (Fail (TraceErr (NotFound (''phase '' @ quoted ''/init'' @ '' not found''))),
              (planned_store Unstarted [])\<lparr>calls := 1\<rparr>)
   \<and> FindPhase (sample_plan Unstarted) ''/init''
      = Fail (TraceErr (NotFound (''phase '' @ quoted ''/init'' @ '' not found'')))"
proof -
  let ?bad = "BadParameter ''quota exceeded''"
  let ?params = "\<lparr>PhaseID = ''/masters/node-2'', Force = False\<rparr>"
  let ?w1 = "(planned_store Unstarted [Some ?bad])\<lparr>calls := 1\<rparr>"
  let ?w2 = "(planned_store Unstarted [])\<lparr>calls := 2\<rparr>"
  let ?phase = "sample_phase ''/masters/node-2'' 2 Unstarted"
  let ?entry = "progressEntry (Key sample_operation) (sample_plan Unstarted) ?phase (now ?w1)"
  have g: "GetPlan sample_engine (planned_store Unstarted [None, Some ?bad])
      = Some (Return (sample_plan Unstarted), ?w1)"
    by (rule sample_GetPlan_next)
  have f: "FindPhase (sample_plan Unstarted) (PhaseID ?params) = Return ?phase"
    by (simp add: sample_FindPhase)
  have c: "retrying_CreateProgressEntry (eng_operator sample_engine) (Key sample_operation)
             ?entry ?w1 = Some (Fail (TraceErr ?bad), ?w2)"
    using store_CreateProgressEntry_refused [of "eng_operator sample_engine" ?w1 ?bad "[]"
        "Key sample_operation" ?entry]
    by (simp add: sample_engine_fields planned_store_def sample_store_def
        IsConnectionRefusedError_def)
  have 1: "UpdateProgress sample_engine Background ?params
        (planned_store Unstarted [None, Some ?bad])
      = Some (Return (), ?w2\<lparr>logged := logged ?w2 @ [(WarnLevel, ''Failed to create progress entry.'')]\<rparr>)"
    using UpdateProgress_best_effort [where r = sample_engine and ctx = Background
        and params = ?params and w = "planned_store Unstarted [None, Some ?bad]"
        and plan = "sample_plan Unstarted" and ?w1.0 = ?w1 and phase = ?phase
        and operation = sample_operation and err = "TraceErr ?bad" and ?w2.0 = ?w2]
      g f c sample_engine_fields
    by blast
  have nf: "FindPhase (sample_plan Unstarted) ''/init''
      = Fail (TraceErr (NotFound (''phase '' @ quoted ''/init'' @ '' not found'')))"
    by (simp add: FindPhase_def sample_plan_def sample_phase_def trace_NotFound_def)
  have 2: "UpdateProgress sample_engine Background \<lparr>PhaseID = ''/init'', Force = False\<rparr>
        (planned_store Unstarted [])
      = Some (Fail (TraceErr (NotFound (''phase '' @ quoted ''/init'' @ '' not found''))),
              (planned_store Unstarted [])\<lparr>calls := 1\<rparr>)"
    by (simp add: UpdateProgress_def sample_GetPlan nf)
  have 3: "?w2\<lparr>logged := logged ?w2 @ [(WarnLevel, ''Failed to create progress entry.'')]\<rparr>
     = (planned_store Unstarted [])\<lparr>calls := 2,
                logged := [(WarnLevel, ''Failed to create progress entry.'')]\<rparr>"
    by (simp add: planned_store_def sample_store_def)
  show ?thesis
    using g 1 2 nf unfolding 3 by blast
qed

section \<open>Completing the operation\<close>







text \<open>
  C9. When the fetched plan is not completed, \<open>Complete\<close> evaluates
  \<^verbatim>\<open>trace.Unwrap(fsmErr).Error()\<close>: with a nil \<open>fsmErr\<close> the call panics before any
  state-store call is made; with a non-nil \<open>fsmErr\<close> the message is computed and
  \<open>FailOperation\<close> is called with it. When the plan is completed the argument is not
  looked at, so nil is as good as any error.
\<close>

theorem Complete_needs_error:
  "(GetPlan r w = Some (Return plan, w1) \<and> \<not> IsCompleted plan \<longrightarrow>
      Complete r None w = Some (Panic, w1))
   \<and> (GetPlan r w = Some (Return plan, w1) \<and> \<not> IsCompleted plan
        \<and> cfg_Operation (eng_Config r) = Some operation \<longrightarrow>
      Complete r (Some err) w =
        (case FailOperation (Key operation) (eng_operator r) (Error_text (trace_Unwrap err)) w1 of
           None \<Rightarrow> None
         | Some (Panic, w2) \<Rightarrow> Some (Panic, w2)
         | Some (Fail e0, w2) \<Rightarrow> Some (Fail (trace_Wrap e0), w2)
         | Some (Return u, w2) \<Rightarrow>
             Some (log_line (cfg_FieldLogger (eng_Config r)) DebugLevel
                     ''Marked operation complete.'' w2)))
   \<and> (GetPlan r w = Some (Return plan, w1) \<and> IsCompleted plan \<longrightarrow>
      Complete r None w = Complete r (Some err) w)"
proof -
  have A: "GetPlan r w = Some (Return plan, w1) \<and> \<not> IsCompleted plan \<longrightarrow>
      Complete r None w = Some (Panic, w1)"
  proof
    assume a: "GetPlan r w = Some (Return plan, w1) \<and> \<not> IsCompleted plan"
    then obtain operation where "cfg_Operation (eng_Config r) = Some operation"
      using GetPlan_Operation by blast
    then show "Complete r None w = Some (Panic, w1)"
      using a by (simp add: Complete_def)
  qed
  have B: "GetPlan r w = Some (Return plan, w1) \<and> \<not> IsCompleted plan
        \<and> cfg_Operation (eng_Config r) = Some operation \<longrightarrow>
      Complete r (Some err) w =
        (case FailOperation (Key operation) (eng_operator r) (Error_text (trace_Unwrap err)) w1 of
           None \<Rightarrow> None
         | Some (Panic, w2) \<Rightarrow> Some (Panic, w2)
         | Some (Fail e0, w2) \<Rightarrow> Some (Fail (trace_Wrap e0), w2)
         | Some (Return u, w2) \<Rightarrow>
             Some (log_line (cfg_FieldLogger (eng_Config r)) DebugLevel
                     ''Marked operation complete.'' w2))"
    by (simp add: Complete_def)
  have C: "GetPlan r w = Some (Return plan, w1) \<and> IsCompleted plan \<longrightarrow>
      Complete r None w = Complete r (Some err) w"
    by (simp add: Complete_def split: option.splits)
  show ?thesis
    by (rule conjI [OF A conjI [OF B C]])
qed

theorem Complete_needs_error_witness:
  "GetPlan sample_engine (planned_store Unstarted [])
     = Some (Return (sample_plan Unstarted), (planned_store Unstarted [])\<lparr>calls := 1\<rparr>)
   \<and> \<not> IsCompleted (sample_plan Unstarted)
   \<and> Complete sample_engine None (planned_store Unstarted [])
      = Some (Panic, (planned_store Unstarted [])\<lparr>calls := 1\<rparr>)
   \<and> Complete sample_engine (Some (OtherError ''node-2 is down'')) (planned_store Unstarted [])
      = Some (Return (), (planned_store Unstarted [])\<lparr>calls := 2,
           st_state := Some \<lparr>req_State = OperationStateFailed, req_Message = ''node-2 is down''\<rparr>,
           logged := [(DebugLevel, ''Marked operation complete.'')]\<rparr>)
   \<and> Complete sample_engine None (planned_store Completed [])
      = Complete sample_engine (Some (OtherError ''node-2 is down'')) (planned_store Completed [])"
proof -
  let ?err = "OtherError ''node-2 is down''"
  note t = Complete_needs_error [where r = sample_engine and w = "planned_store Unstarted []"
      and plan = "sample_plan Unstarted" and ?w1.0 = "(planned_store Unstarted [])\<lparr>calls := 1\<rparr>"
      and operation = sample_operation and err = ?err]
  note c = Complete_needs_error [where r = sample_engine and w = "planned_store Completed []"
      and plan = "sample_plan Completed" and ?w1.0 = "(planned_store Completed [])\<lparr>calls := 1\<rparr>"
      and operation = sample_operation and err = ?err]
  have 1: "Complete sample_engine None (planned_store Unstarted [])
      = Some (Panic, (planned_store Unstarted [])\<lparr>calls := 1\<rparr>)"
    using t sample_GetPlan [of Unstarted] sample_plan_IsCompleted(2) by blast
  have 2: "Complete sample_engine (Some ?err) (planned_store Unstarted [])
      = Some (log_line (cfg_FieldLogger (eng_Config sample_engine)) DebugLevel
             ''Marked operation complete.''
             ((planned_store Unstarted [])\<lparr>calls := 2,
               st_state := Some \<lparr>req_State = OperationStateFailed,
                                 req_Message = ''node-2 is down''\<rparr>\<rparr>))"
    using t sample_GetPlan [of Unstarted] sample_plan_IsCompleted(2) sample_engine_fields(1)
      sample_Complete_failed [of "''node-2 is down''"]
    by simp
  have 3: "Complete sample_engine None (planned_store Completed [])
      = Complete sample_engine (Some ?err) (planned_store Completed [])"
    using c sample_GetPlan [of Completed] sample_plan_IsCompleted(1) by blast
  have 4: "Complete sample_engine (Some ?err) (planned_store Unstarted [])
      = Some (Return (), (planned_store Unstarted [])\<lparr>calls := 2,
           st_state := Some \<lparr>req_State = OperationStateFailed, req_Message = ''node-2 is down''\<rparr>,
           logged := [(DebugLevel, ''Marked operation complete.'')]\<rparr>)"
    unfolding 2
    by (simp add: log_line_def sample_engine_fields planned_store_def sample_store_def)
  show ?thesis
    using sample_GetPlan [of Unstarted] sample_plan_IsCompleted(2) 1 3 4 by blast
qed

section \<open>The wall-clock ceiling of the retry wrapper\<close>

lemma loop_returns:
  assumes mono: "\<And>s r s1. fn s = (r, s1) \<Longrightarrow> now s \<le> now s1"
    and pos: "\<And>j. 0 < b j"
    and dl: "Deadline ctx = Some d"
  shows "\<exists>res. RetryWithInterval ctx b i fn w = Some res"
proof (induction "d - now w" arbitrary: w i rule: less_induct)
  case less
  obtain r w1 where f: "fn w = (r, w1)" by (cases "fn w")
  show ?case
  proof (cases r)
    case (Return v)
    have "RetryWithInterval ctx b i fn w = Some (Return v, w1)"
      by (rule loop_Return) (simp add: f Return)
    then show ?thesis by (rule exI)
  next
    case Panic
    have "RetryWithInterval ctx b i fn w = Some (Panic, w1)"
      by (rule loop_Panic) (simp add: f Panic)
    then show ?thesis by (rule exI)
  next
    case (Fail err)
    show ?thesis
    proof (cases "\<exists>e. err = PermanentError e")
      case True
      then obtain e where e: "err = PermanentError e" ..
      have "RetryWithInterval ctx b i fn w = Some (Fail e, w1)"
        by (rule loop_Permanent) (simp add: f Fail e)
      then show ?thesis by (rule exI)
    next
      case False
      then have np: "\<forall>e. err \<noteq> PermanentError e" by simp
      show ?thesis
      proof (cases "Done ctx (now w1 + b i)")
        case True
        show ?thesis
          using loop_expired [where fn = fn and b = b and i = i, OF f [unfolded Fail] np True]
          by (rule exI)
      next
        case False
        then have lt: "now w1 + b i < d"
          by (simp add: Done_def dl)
        have "now w \<le> now w1" using mono [OF f] .
        then have "d - now (w1\<lparr>now := now w1 + b i\<rparr>) < d - now w"
          using lt pos [of i] by simp
        from less [OF this] obtain res where
          "RetryWithInterval ctx b (Suc i) fn (w1\<lparr>now := now w1 + b i\<rparr>) = Some res"
          ..
        then have "RetryWithInterval ctx b i fn w = Some res"
          by (simp only: loop_again [where fn = fn and b = b and i = i,
                OF f [unfolded Fail] np False])
        then show ?thesis by (rule exI)
      qed
    qed
  qed
qed

lemma retry_attempt_state:
  "retry_attempt fn s = (r, s1) \<Longrightarrow> \<exists>r0. fn s = (r0, s1)"
  by (auto simp: retry_attempt_def split: prod.splits outcome.splits if_splits)

lemma retry_returns:
  assumes mono: "\<And>s r s1. fn s = (r, s1) \<Longrightarrow> now s \<le> now s1"
    and pos: "\<And>j. 0 < pauses w j"
  shows "\<exists>res. retry fn w = Some res"
proof -
  have m: "now s \<le> now s1" if "retry_attempt fn s = (r, s1)" for s r s1
  proof -
    from retry_attempt_state [OF that] obtain r0 where "fn s = (r0, s1)" ..
    then show ?thesis by (rule mono)
  qed
  have "Deadline (WithTimeout Background maxRetryElapsedTime (now w))
      = Some (now w + maxRetryElapsedTime)"
    by (simp add: WithTimeout_def Background_def)
  from loop_returns [where fn = "retry_attempt fn" and b = "pauses w" and i = 0 and w = w,
      OF m pos this]
  obtain res where
    "RetryWithInterval (WithTimeout Background maxRetryElapsedTime (now w)) (pauses w) 0
       (retry_attempt fn) w = Some res"
    ..
  then show ?thesis by (simp add: retry_unfold)
qed

lemma attempt_expired:
  "fn w = (Fail e, w1) \<Longrightarrow> IsConnectionRefusedError e \<Longrightarrow> Done ctx (now w1 + b i) \<Longrightarrow>
   RetryWithInterval ctx b i (retry_attempt fn) w =
     Some (Fail (trace_Wrap e), w1\<lparr>now := Expiry ctx (now w1)\<rparr>)"
  by (rule loop_expired) (auto simp: retry_attempt_def trace_Wrap_not_permanent)

lemma store_SetOperationState_now:
  "now (snd (SetOperationState store_Operator key req s)) = now s"
  by (simp add: store_Operator_def request_def Let_def split: list.splits option.splits)

text \<open>
  C8. The ceiling is 5 minutes (300 seconds, in nanoseconds), and every \<open>retry\<close> runs its
  backoff loop under a context whose deadline is the clock at the call plus that ceiling.
  At every attempt: when the wrapped function fails with a connection-refused error and
  the context is done by the end of the pause, the loop makes no further attempt and
  returns the error, the clock standing at the deadline. Whenever the wrapped function
  does not turn the clock back and the pauses are positive, \<open>retry\<close> returns.
\<close>

theorem retry_bounded_by_ceiling:
  "maxRetryElapsedTime = 300 * 1000000000
   \<and> Deadline (WithTimeout Background maxRetryElapsedTime t) = Some (t + 5 * Minute)
   \<and> retry fn w =
       map_option (\<lambda>(r, w1). (Wrap_outcome r, w1))
         (RetryWithInterval (WithTimeout Background maxRetryElapsedTime (now w)) (pauses w) 0
            (retry_attempt fn) w)
   \<and> (fn s = (Fail e, s1) \<and> IsConnectionRefusedError e \<and> Done ctx (now s1 + b i) \<longrightarrow>
        RetryWithInterval ctx b i (retry_attempt fn) s =
          Some (Fail (trace_Wrap e), s1\<lparr>now := Expiry ctx (now s1)\<rparr>))
   \<and> ((\<forall>s. now s \<le> now (snd (fn s))) \<and> (\<forall>j. 0 < pauses w j) \<longrightarrow>
        (\<exists>res. retry fn w = Some res))"
proof -
  have A: "maxRetryElapsedTime = 300 * 1000000000"
    by (simp add: maxRetryElapsedTime_def Minute_def)
  have B: "Deadline (WithTimeout Background maxRetryElapsedTime t) = Some (t + 5 * Minute)"
    by (simp add: WithTimeout_def Background_def maxRetryElapsedTime_def)
  have D: "fn s = (Fail e, s1) \<and> IsConnectionRefusedError e \<and> Done ctx (now s1 + b i) \<longrightarrow>
        RetryWithInterval ctx b i (retry_attempt fn) s =
          Some (Fail (trace_Wrap e), s1\<lparr>now := Expiry ctx (now s1)\<rparr>)"
  proof
    assume a: "fn s = (Fail e, s1) \<and> IsConnectionRefusedError e \<and> Done ctx (now s1 + b i)"
    show "RetryWithInterval ctx b i (retry_attempt fn) s =
          Some (Fail (trace_Wrap e), s1\<lparr>now := Expiry ctx (now s1)\<rparr>)"
      by (rule attempt_expired) (simp_all add: a)
  qed
  have E: "(\<forall>s. now s \<le> now (snd (fn s))) \<and> (\<forall>j. 0 < pauses w j) \<longrightarrow>
        (\<exists>res. retry fn w = Some res)"
  proof
    assume a: "(\<forall>s. now s \<le> now (snd (fn s))) \<and> (\<forall>j. 0 < pauses w j)"
    have m: "now s \<le> now s1" if "fn s = (r, s1)" for s r s1
      using a that by (metis snd_conv)
    show "\<exists>res. retry fn w = Some res"
      by (rule retry_returns [OF m]) (simp_all add: a)
  qed
  show ?thesis
    by (rule conjI [OF A conjI [OF B conjI [OF retry_unfold conjI [OF D E]]]])
qed

theorem retry_bounded_by_ceiling_witness:
  "IsConnectionRefusedError refused
   \<and> Done (WithTimeout Background maxRetryElapsedTime 0) (299800000000 + 500000000 * 2 ^ 0)
   \<and> RetryWithInterval (WithTimeout Background maxRetryElapsedTime 0)
        (\<lambda>i. 500000000 * 2 ^ i) 0
        (retry_attempt (SetOperationState store_Operator sample_key sample_request))
        ((sample_store [Some refused, None])\<lparr>now := 299800000000\<rparr>)
      = Some (Fail (TraceErr refused),
              (sample_store [None])\<lparr>now := 300000000000, calls := 1\<rparr>)
   \<and> (\<forall>s. now s \<le> now (snd (SetOperationState store_Operator sample_key sample_request s)))
   \<and> (\<forall>j. 0 < pauses (sample_store [Some refused]) j)
   \<and> (\<exists>res. retry (SetOperationState store_Operator sample_key sample_request)
                (sample_store [Some refused]) = Some res)"
proof -
  let ?fn = "SetOperationState store_Operator sample_key sample_request"
  let ?ctx = "WithTimeout Background maxRetryElapsedTime 0"
  let ?s = "(sample_store [Some refused, None])\<lparr>now := 299800000000\<rparr>"
  let ?s1 = "(sample_store [None])\<lparr>now := 299800000000, calls := 1\<rparr>"
  note t = retry_bounded_by_ceiling [where fn = ?fn and w = "sample_store [Some refused]"
      and s = ?s and e = refused and ?s1.0 = ?s1 and ctx = ?ctx
      and b = "\<lambda>i. 500000000 * 2 ^ i" and i = 0]
  have f: "?fn ?s = (Fail refused, ?s1)"
    by (simp add: store_Operator_def request_def sample_store_def)
  have d: "Done ?ctx (now ?s1 + 500000000 * 2 ^ 0)"
    by (simp add: Done_def WithTimeout_def Background_def maxRetryElapsedTime_def Minute_def
        sample_store_def)
  have m: "\<forall>s. now s \<le> now (snd (?fn s))"
    by (simp add: store_SetOperationState_now)
  have p: "\<forall>j. 0 < pauses (sample_store [Some refused]) j"
    by (simp add: sample_store_def)
  have 1: "RetryWithInterval ?ctx (\<lambda>i. 500000000 * 2 ^ i) 0 (retry_attempt ?fn) ?s
      = Some (Fail (trace_Wrap refused), ?s1\<lparr>now := Expiry ?ctx (now ?s1)\<rparr>)"
    using t f d refused_transient by blast
  have 2: "\<exists>res. retry ?fn (sample_store [Some refused]) = Some res"
    using t m p by blast
  have 3: "?s1\<lparr>now := Expiry ?ctx (now ?s1)\<rparr>
      = (sample_store [None])\<lparr>now := 300000000000, calls := 1\<rparr>"
    by (simp add: Expiry_def WithTimeout_def Background_def maxRetryElapsedTime_def Minute_def
        sample_store_def)
  have 4: "trace_Wrap refused = TraceErr refused"
    by (simp add: refused_def)
  have 5: "Done ?ctx (299800000000 + 500000000 * 2 ^ 0)"
    by (simp add: Done_def WithTimeout_def Background_def maxRetryElapsedTime_def Minute_def)
  show ?thesis
    by (rule conjI [OF refused_transient conjI [OF 5 conjI [OF 1 [unfolded 3 4]
          conjI [OF m conjI [OF p 2]]]]])
qed

section \<open>The log of plan changes\<close>

lemma SetPhaseState_applied:
  "\<forall>p \<in> set (FlattenPhase (SetPhaseState phaseID state ph)).
     phase_ID p = phaseID \<longrightarrow> phase_State p = state"
  by (induction ph) auto

lemma ApplyChange_applied:
  "p \<in> set (concat (map FlattenPhase (plan_Phases (ApplyChange change plan)))) \<Longrightarrow>
   phase_ID p = pc_PhaseID change \<Longrightarrow> phase_State p = pc_NewState change"
  using SetPhaseState_applied by (auto simp: ApplyChange_def)

lemma store_change_after_refusals:
  assumes "st_transport w = map Some es"
    and "\<forall>e\<in>set es. IsConnectionRefusedError e"
    and "Deadline ctx = Some d"
    and "now w + (\<Sum>j<length es. b (i + j)) < d"
  shows "RetryWithInterval ctx b i
           (retry_attempt (CreateOperationPlanChange store_Operator key change)) w =
     Some (Return (),
           w\<lparr>now := now w + (\<Sum>j<length es. b (i + j)),
             calls := calls w + length es + 1,
             st_transport := [],
             st_changelog := st_changelog w @ [change],
             st_plan := map_option (ApplyChange change) (st_plan w)\<rparr>)"
  using assms
proof (induction es arbitrary: w i)
  case Nil
  let ?fn = "CreateOperationPlanChange store_Operator key change"
  have "?fn w = (Return (), w\<lparr>calls := Suc (calls w),
      st_changelog := st_changelog w @ [change],
      st_plan := map_option (ApplyChange change) (st_plan w)\<rparr>)"
    using Nil.prems(1) by (simp add: store_Operator_def request_delivered)
  from attempt_Return [where fn = ?fn and b = b and i = i and ctx = ctx, OF this]
  show ?case using Nil.prems(1) by simp
next
  case (Cons e es)
  let ?fn = "CreateOperationPlanChange store_Operator key change"
  let ?w1 = "w\<lparr>calls := Suc (calls w), st_transport := map Some es\<rparr>"
  let ?w2 = "?w1\<lparr>now := now ?w1 + b i\<rparr>"
  have f: "?fn w = (Fail e, ?w1)"
    using Cons.prems(1) by (simp add: store_Operator_def request_refused)
  have t: "IsConnectionRefusedError e" using Cons.prems(2) by simp
  have s: "(\<Sum>j<length (e # es). b (i + j)) = b i + (\<Sum>j<length es. b (Suc i + j))"
    using sum.lessThan_Suc_shift [of "\<lambda>j. b (i + j)" "length es"] by simp
  have p4: "now w + (b i + (\<Sum>j<length es. b (Suc i + j))) < d"
    using Cons.prems(4) unfolding s .
  have nd: "\<not> Done ctx (now ?w1 + b i)"
    using Cons.prems(3) p4 by (simp add: Done_def)
  have step: "RetryWithInterval ctx b i (retry_attempt ?fn) w =
      RetryWithInterval ctx b (Suc i) (retry_attempt ?fn) ?w2"
    by (rule attempt_transient [where fn = ?fn and b = b and i = i, OF f t nd])
  have ih: "RetryWithInterval ctx b (Suc i) (retry_attempt ?fn) ?w2 =
     Some (Return (),
           ?w2\<lparr>now := now ?w2 + (\<Sum>j<length es. b (Suc i + j)),
             calls := calls ?w2 + length es + 1,
             st_transport := [],
             st_changelog := st_changelog ?w2 @ [change],
             st_plan := map_option (ApplyChange change) (st_plan ?w2)\<rparr>)"
  proof (rule Cons.IH)
    show "st_transport ?w2 = map Some es" by simp
    show "\<forall>e\<in>set es. IsConnectionRefusedError e" using Cons.prems(2) by simp
    show "Deadline ctx = Some d" by (rule Cons.prems(3))
    show "now ?w2 + (\<Sum>j<length es. b (Suc i + j)) < d"
      using p4 by simp
  qed
  show ?case
    unfolding step ih s by simp
qed

lemma store_ChangePhaseState:
  assumes o: "cfg_Operation (eng_Config r) = Some operation"
    and so: "Operator (eng_operator r) = Some store_Operator"
    and lg: "cfg_FieldLogger (eng_Config r) = Some logger"
    and tr: "st_transport w = map Some es"
    and cr: "\<forall>e\<in>set es. IsConnectionRefusedError e"
    and tm: "(\<Sum>j<length es. pauses w j) < maxRetryElapsedTime"
  shows "ChangePhaseState r ctx change w =
     Some (Return (),
           w\<lparr>uuids := Suc (uuids w),
             now := now w + (\<Sum>j<length es. pauses w j),
             calls := calls w + length es + 1,
             st_transport := [],
             st_changelog := st_changelog w @ [planChange operation change (uuids w) (now w)],
             st_plan := map_option (ApplyChange (planChange operation change (uuids w) (now w)))
                          (st_plan w),
             logged := logged w @ [(DebugLevel, ''Applied %v.'')]\<rparr>)"
proof -
  let ?w0 = "w\<lparr>uuids := Suc (uuids w)\<rparr>"
  let ?pc = "planChange operation change (uuids w) (now w)"
  let ?ctx = "WithTimeout Background maxRetryElapsedTime (now ?w0)"
  have d: "Deadline ?ctx = Some (now w + maxRetryElapsedTime)"
    by (simp add: WithTimeout_def Background_def)
  have "RetryWithInterval ?ctx (pauses ?w0) 0
          (retry_attempt (CreateOperationPlanChange store_Operator (Key operation) ?pc)) ?w0 =
     Some (Return (),
           ?w0\<lparr>now := now ?w0 + (\<Sum>j<length es. pauses ?w0 (0 + j)),
             calls := calls ?w0 + length es + 1,
             st_transport := [],
             st_changelog := st_changelog ?w0 @ [?pc],
             st_plan := map_option (ApplyChange ?pc) (st_plan ?w0)\<rparr>)"
    by (rule store_change_after_refusals [OF _ cr d]) (simp_all add: tr tm)
  then have "retrying_CreateOperationPlanChange (eng_operator r) (Key operation) ?pc ?w0 =
     Some (Return (),
           ?w0\<lparr>now := now w + (\<Sum>j<length es. pauses w j),
             calls := calls w + length es + 1,
             st_transport := [],
             st_changelog := st_changelog w @ [?pc],
             st_plan := map_option (ApplyChange ?pc) (st_plan w)\<rparr>)"
    by (simp add: retrying_CreateOperationPlanChange_def so retry_unfold)
  then show ?thesis
    by (simp add: ChangePhaseState_def o lg uuid_New_def log_line_def)
qed

lemma store_ChangePhaseState_permanent:
  assumes o: "cfg_Operation (eng_Config r) = Some operation"
    and so: "Operator (eng_operator r) = Some store_Operator"
    and tr: "st_transport w = Some e # rest"
    and cr: "\<not> IsConnectionRefusedError e"
  shows "ChangePhaseState r ctx change w =
     Some (Fail (trace_Wrap e),
           w\<lparr>uuids := Suc (uuids w), calls := Suc (calls w), st_transport := rest\<rparr>)"
proof -
  let ?w0 = "w\<lparr>uuids := Suc (uuids w)\<rparr>"
  let ?pc = "planChange operation change (uuids w) (now w)"
  have "CreateOperationPlanChange store_Operator (Key operation) ?pc ?w0 =
      (Fail e, ?w0\<lparr>calls := Suc (calls ?w0), st_transport := rest\<rparr>)"
    using tr by (simp add: store_Operator_def request_refused)
  from retry_Fail_permanent
    [where fn = "CreateOperationPlanChange store_Operator (Key operation) ?pc" and w = ?w0,
      OF this cr]
  have "retrying_CreateOperationPlanChange (eng_operator r) (Key operation) ?pc ?w0 =
     Some (Fail (trace_Wrap e), ?w0\<lparr>calls := Suc (calls ?w0), st_transport := rest\<rparr>)"
    by (simp add: retrying_CreateOperationPlanChange_def so trace_Wrap_idem)
  then show ?thesis
    by (simp add: ChangePhaseState_def o uuid_New_def trace_Wrap_idem)
qed

text \<open>
  C5. \<open>ChangePhaseState\<close> hands the retrying operator one plan change, which carries the
  phase identifier, the new state, the optional error detail, the clock's reading and the
  operation key (cluster name and operation identifier). On the reference store: however
  many times the transport refuses the connection first (the pauses adding up to less
  than the ceiling), the call is retried until it is delivered, the record is appended to
  the log once, behind the records already there, every phase of the persisted plan with
  that identifier takes the new state, and nil is returned; on an error of another kind
  nothing is appended and the error is returned after the one call.
\<close>

theorem ChangePhaseState_appends:
  "(cfg_Operation (eng_Config r0) = Some operation0 \<longrightarrow>
      ChangePhaseState r0 ctx change w0 =
        (case retrying_CreateOperationPlanChange (eng_operator r0) (Key operation0)
                (planChange operation0 change (uuids w0) (now w0)) (w0\<lparr>uuids := Suc (uuids w0)\<rparr>) of
           None \<Rightarrow> None
         | Some (Panic, w1) \<Rightarrow> Some (Panic, w1)
         | Some (Fail err, w1) \<Rightarrow> Some (Fail (trace_Wrap err), w1)
         | Some (Return u, w1) \<Rightarrow>
             Some (log_line (cfg_FieldLogger (eng_Config r0)) DebugLevel ''Applied %v.'' w1)))
   \<and> pc_PhaseID (planChange operation change n t) = sc_Phase change
   \<and> pc_NewState (planChange operation change n t) = sc_State change
   \<and> pc_Error (planChange operation change n t)
        = map_option (\<lambda>e. \<lparr>raw_Message = Error_text e\<rparr>) (sc_Error change)
   \<and> pc_Created (planChange operation change n t) = t
   \<and> pc_ClusterName (planChange operation change n t) = key_SiteDomain (Key operation)
   \<and> pc_OperationID (planChange operation change n t) = key_OperationID (Key operation)
   \<and> (cfg_Operation (eng_Config r) = Some operation
        \<and> Operator (eng_operator r) = Some store_Operator
        \<and> cfg_FieldLogger (eng_Config r) = Some logger
        \<and> st_transport w = map Some es
        \<and> (\<forall>e\<in>set es. IsConnectionRefusedError e)
        \<and> (\<Sum>j<length es. pauses w j) < maxRetryElapsedTime \<longrightarrow>
       (\<exists>w'. ChangePhaseState r ctx change w = Some (Return (), w')
          \<and> st_changelog w' = st_changelog w @ [planChange operation change (uuids w) (now w)]
          \<and> st_plan w' = map_option (ApplyChange (planChange operation change (uuids w) (now w)))
                            (st_plan w)
          \<and> calls w' = calls w + length es + 1))
   \<and> (cfg_Operation (eng_Config r) = Some operation
        \<and> Operator (eng_operator r) = Some store_Operator
        \<and> st_transport w = Some e # rest \<and> \<not> IsConnectionRefusedError e \<longrightarrow>
       (\<exists>w'. ChangePhaseState r ctx change w = Some (Fail (trace_Wrap e), w')
          \<and> st_changelog w' = st_changelog w \<and> st_plan w' = st_plan w
          \<and> calls w' = calls w + 1))
   \<and> (\<forall>p \<in> set (concat (map FlattenPhase (plan_Phases (ApplyChange pc plan)))).
         phase_ID p = pc_PhaseID pc \<longrightarrow> phase_State p = pc_NewState pc)"
proof -
  have A: "cfg_Operation (eng_Config r0) = Some operation0 \<longrightarrow>
      ChangePhaseState r0 ctx change w0 =
        (case retrying_CreateOperationPlanChange (eng_operator r0) (Key operation0)
                (planChange operation0 change (uuids w0) (now w0)) (w0\<lparr>uuids := Suc (uuids w0)\<rparr>) of
           None \<Rightarrow> None
         | Some (Panic, w1) \<Rightarrow> Some (Panic, w1)
         | Some (Fail err, w1) \<Rightarrow> Some (Fail (trace_Wrap err), w1)
         | Some (Return u, w1) \<Rightarrow>
             Some (log_line (cfg_FieldLogger (eng_Config r0)) DebugLevel ''Applied %v.'' w1))"
    by (simp add: ChangePhaseState_def uuid_New_def)
  have B: "pc_PhaseID (planChange operation change n t) = sc_Phase change
   \<and> pc_NewState (planChange operation change n t) = sc_State change
   \<and> pc_Error (planChange operation change n t)
        = map_option (\<lambda>e. \<lparr>raw_Message = Error_text e\<rparr>) (sc_Error change)
   \<and> pc_Created (planChange operation change n t) = t
   \<and> pc_ClusterName (planChange operation change n t) = key_SiteDomain (Key operation)
   \<and> pc_OperationID (planChange operation change n t) = key_OperationID (Key operation)"
    by (simp add: planChange_def utils_ToRawTrace_def Key_def)
  have C: "cfg_Operation (eng_Config r) = Some operation
        \<and> Operator (eng_operator r) = Some store_Operator
        \<and> cfg_FieldLogger (eng_Config r) = Some logger
        \<and> st_transport w = map Some es
        \<and> (\<forall>e\<in>set es. IsConnectionRefusedError e)
        \<and> (\<Sum>j<length es. pauses w j) < maxRetryElapsedTime \<longrightarrow>
       (\<exists>w'. ChangePhaseState r ctx change w = Some (Return (), w')
          \<and> st_changelog w' = st_changelog w @ [planChange operation change (uuids w) (now w)]
          \<and> st_plan w' = map_option (ApplyChange (planChange operation change (uuids w) (now w)))
                            (st_plan w)
          \<and> calls w' = calls w + length es + 1)"
  proof
    assume a: "cfg_Operation (eng_Config r) = Some operation
        \<and> Operator (eng_operator r) = Some store_Operator
        \<and> cfg_FieldLogger (eng_Config r) = Some logger
        \<and> st_transport w = map Some es
        \<and> (\<forall>e\<in>set es. IsConnectionRefusedError e)
        \<and> (\<Sum>j<length es. pauses w j) < maxRetryElapsedTime"
    have "ChangePhaseState r ctx change w = Some (Return (),
           w\<lparr>uuids := Suc (uuids w),
             now := now w + (\<Sum>j<length es. pauses w j),
             calls := calls w + length es + 1,
             st_transport := [],
             st_changelog := st_changelog w @ [planChange operation change (uuids w) (now w)],
             st_plan := map_option (ApplyChange (planChange operation change (uuids w) (now w)))
                          (st_plan w),
             logged := logged w @ [(DebugLevel, ''Applied %v.'')]\<rparr>)"
      by (rule store_ChangePhaseState) (simp_all add: a)
    then show "\<exists>w'. ChangePhaseState r ctx change w = Some (Return (), w')
          \<and> st_changelog w' = st_changelog w @ [planChange operation change (uuids w) (now w)]
          \<and> st_plan w' = map_option (ApplyChange (planChange operation change (uuids w) (now w)))
                            (st_plan w)
          \<and> calls w' = calls w + length es + 1"
      by simp
  qed
  have D: "cfg_Operation (eng_Config r) = Some operation
        \<and> Operator (eng_operator r) = Some store_Operator
        \<and> st_transport w = Some e # rest \<and> \<not> IsConnectionRefusedError e \<longrightarrow>
       (\<exists>w'. ChangePhaseState r ctx change w = Some (Fail (trace_Wrap e), w')
          \<and> st_changelog w' = st_changelog w \<and> st_plan w' = st_plan w
          \<and> calls w' = calls w + 1)"
  proof
    assume a: "cfg_Operation (eng_Config r) = Some operation
        \<and> Operator (eng_operator r) = Some store_Operator
        \<and> st_transport w = Some e # rest \<and> \<not> IsConnectionRefusedError e"
    have "ChangePhaseState r ctx change w =
     Some (Fail (trace_Wrap e),
           w\<lparr>uuids := Suc (uuids w), calls := Suc (calls w), st_transport := rest\<rparr>)"
      by (rule store_ChangePhaseState_permanent) (simp_all add: a)
    then show "\<exists>w'. ChangePhaseState r ctx change w = Some (Fail (trace_Wrap e), w')
          \<and> st_changelog w' = st_changelog w \<and> st_plan w' = st_plan w
          \<and> calls w' = calls w + 1"
      by simp
  qed
  have E: "\<forall>p \<in> set (concat (map FlattenPhase (plan_Phases (ApplyChange pc plan)))).
         phase_ID p = pc_PhaseID pc \<longrightarrow> phase_State p = pc_NewState pc"
    using ApplyChange_applied by blast
  show ?thesis
    using A B C D E by (intro conjI) (simp_all only: simp_thms)
qed

theorem ChangePhaseState_appends_witness:
  "IsConnectionRefusedError refused
   \<and> (\<exists>w'. ChangePhaseState sample_engine Background sample_change
               (planned_store Unstarted [Some refused, Some refused]) = Some (Return (), w')
        \<and> st_changelog w' =
            [\<lparr>pc_ID = 0, pc_ClusterName = ''example.com'', pc_OperationID = ''op-1'',
              pc_PhaseID = ''/masters/node-2'', pc_NewState = InProgress, pc_Error = None,
              pc_Created = 0\<rparr>]
        \<and> map_option (\<lambda>p. map phase_State (plan_Phases p)) (st_plan w')
            = Some [Completed, InProgress, Unstarted, Unstarted]
        \<and> calls w' = 3)
   \<and> \<not> IsConnectionRefusedError (BadParameter ''bad request'')
   \<and> (\<exists>w'. ChangePhaseState sample_engine Background sample_change
               (planned_store Unstarted [Some (BadParameter ''bad request'')])
             = Some (Fail (TraceErr (BadParameter ''bad request'')), w')
        \<and> st_changelog w' = [] \<and> calls w' = 1)"
proof -
  let ?w = "planned_store Unstarted [Some refused, Some refused]"
  let ?v = "planned_store Unstarted [Some (BadParameter ''bad request'')]"
  let ?pc = "planChange sample_operation sample_change (uuids ?w) (now ?w)"
  note t = ChangePhaseState_appends [where r = sample_engine and operation = sample_operation
      and ctx = Background and change = sample_change and w = ?w and es = "[refused, refused]"]
  note u = ChangePhaseState_appends [where r = sample_engine and operation = sample_operation
      and ctx = Background and change = sample_change and w = ?v
      and e = "BadParameter ''bad request''" and rest = "[]"]
  have cr: "\<forall>e\<in>set [refused, refused]. IsConnectionRefusedError e"
    by (simp add: refused_transient)
  have nr: "\<not> IsConnectionRefusedError (BadParameter ''bad request'')"
    by (simp add: IsConnectionRefusedError_def)
  have tm: "(\<Sum>j<length [refused, refused]. pauses ?w j) < maxRetryElapsedTime"
    by (simp add: planned_store_def sample_store_def maxRetryElapsedTime_def Minute_def)
  have tr: "st_transport ?w = map Some [refused, refused]"
    "st_transport ?v = Some (BadParameter ''bad request'') # []"
    by (simp_all add: planned_store_def sample_store_def)
  from t cr tm tr(1) sample_engine_fields obtain w' where
    1: "ChangePhaseState sample_engine Background sample_change ?w = Some (Return (), w')"
    and 2: "st_changelog w' = st_changelog ?w @ [?pc]"
    and 3: "st_plan w' = map_option (ApplyChange ?pc) (st_plan ?w)"
    and 4: "calls w' = calls ?w + length [refused, refused] + 1"
    by blast
  have q2: "st_changelog w' =
            [\<lparr>pc_ID = 0, pc_ClusterName = ''example.com'', pc_OperationID = ''op-1'',
              pc_PhaseID = ''/masters/node-2'', pc_NewState = InProgress, pc_Error = None,
              pc_Created = 0\<rparr>]"
    unfolding 2
    by (simp add: planned_store_def sample_store_def planChange_def sample_operation_def
        sample_change_def utils_ToRawTrace_def)
  have q3: "map_option (\<lambda>p. map phase_State (plan_Phases p)) (st_plan w')
            = Some [Completed, InProgress, Unstarted, Unstarted]"
    unfolding 3
    by (simp add: planned_store_def sample_store_def planChange_def sample_change_def
        ApplyChange_def sample_plan_def sample_phase_def)
  have q4: "calls w' = 3"
    unfolding 4 by (simp add: planned_store_def sample_store_def)
  from u nr tr(2) sample_engine_fields obtain v' where
    5: "ChangePhaseState sample_engine Background sample_change ?v
          = Some (Fail (trace_Wrap (BadParameter ''bad request'')), v')"
    and 6: "st_changelog v' = st_changelog ?v" and 7: "calls v' = calls ?v + 1"
    by blast
  have q5: "ChangePhaseState sample_engine Background sample_change ?v
          = Some (Fail (TraceErr (BadParameter ''bad request'')), v')"
    using 5 by simp
  have q6: "st_changelog v' = []" "calls v' = 1"
    unfolding 6 7 by (simp_all add: planned_store_def sample_store_def)
  have A: "\<exists>w'. ChangePhaseState sample_engine Background sample_change ?w = Some (Return (), w')
        \<and> st_changelog w' =
            [\<lparr>pc_ID = 0, pc_ClusterName = ''example.com'', pc_OperationID = ''op-1'',
              pc_PhaseID = ''/masters/node-2'', pc_NewState = InProgress, pc_Error = None,
              pc_Created = 0\<rparr>]
        \<and> map_option (\<lambda>p. map phase_State (plan_Phases p)) (st_plan w')
            = Some [Completed, InProgress, Unstarted, Unstarted]
        \<and> calls w' = 3"
    by (rule exI [of _ w']) (simp only: 1 q2 q3 q4 simp_thms)
  have B: "\<exists>w'. ChangePhaseState sample_engine Background sample_change ?v
             = Some (Fail (TraceErr (BadParameter ''bad request'')), w')
        \<and> st_changelog w' = [] \<and> calls w' = 1"
    by (rule exI [of _ v']) (simp only: q5 q6 simp_thms)
  show ?thesis
    by (rule conjI [OF refused_transient conjI [OF A conjI [OF nr B]]])
qed

end
